theory Spec2Isabelle
  imports Main "HOL-Library.AList"
begin

text \<open>
  A model of the command line interface of apploc (\<open>src/cli.js\<close>): the config locator
  \<open>findConfig\<close>, the loop that turns the remote key records into one map per locale,
  the writer that rewrites the localization file only when its content changes, and the
  function \<open>cli\<close> with its commands \<open>help\<close>, \<open>init\<close> and \<open>update\<close>. The definitions
  come first, section by section in the order of the source; the properties follow.
\<close>

section \<open>Paths and the file system\<close>

text \<open>
  The working directory is an absolute, normalised path (\<open>process.cwd()\<close>). It is kept as
  the list of its segments below the root: the root is \<open>[]\<close>, \<open>/a/b\<close> is
  \<open>[''a'', ''b'']\<close>. On such paths \<open>path.dirname\<close> drops the last segment and leaves
  the root as it is, and \<open>path.join(dir, name)\<close> with a single file name appends it.
\<close>

type_synonym path = "string list"

definition dirname :: "path \<Rightarrow> path" where
  "dirname p = butlast p"

definition path_join :: "path \<Rightarrow> string \<Rightarrow> path" where
  "path_join dir name = dir @ [name]"

definition configFileName :: string where
  "configFileName = ''apploc.config.json''"

text \<open>
  A path names a regular file with its (decoded) content, a directory, or nothing.
  \<open>fs.existsSync\<close> answers for files and directories alike; the root always exists.
\<close>

datatype node = File string | Dir

type_synonym filesystem = "path \<rightharpoonup> node"

definition existsSync :: "filesystem \<Rightarrow> path \<Rightarrow> bool" where
  "existsSync fs p = (p = [] \<or> fs p \<noteq> None)"

section \<open>The config locator\<close>

text \<open>
  \<open>findConfig\<close> (cli.js, lines 75-95) is a \<open>while (true)\<close> loop. The outer option is
  the loop returning at all; the inner one is the returned value, \<open>None\<close> for \<open>null\<close>.
\<close>

partial_function (option) findConfig :: "filesystem \<Rightarrow> path \<Rightarrow> path option option" where
  "findConfig fs currentDir =
     (let configPath = path_join currentDir configFileName in
      if existsSync fs configPath then Some (Some configPath)
      else let parentDir = dirname currentDir in
        if currentDir = parentDir then Some None
        else findConfig fs parentDir)"

declare findConfig.simps [code]

text \<open>The directories the walk visits: the start, its parent, and so on up to the root.\<close>

function ancestors :: "path \<Rightarrow> path list" where
  "ancestors d = (if d = dirname d then [d] else d # ancestors (dirname d))"
  by pat_completeness auto
termination
proof (relation "measure length")
  show "wf (measure length)" by simp
next
  fix d :: path
  assume "d \<noteq> dirname d"
  then have "d \<noteq> []" by (auto simp: dirname_def)
  then show "(dirname d, d) \<in> measure length" by (simp add: dirname_def)
qed

declare ancestors.simps [simp del]

section \<open>Values of the JavaScript runtime\<close>

text \<open>
  What \<open>JSON.parse\<close> and the HTTP client hand to the program: the JSON values, and
  \<open>undefined\<close> for a property that is not there. JSON numbers are kept as integers; no
  property proved here looks at a number. An object is the list of its own properties.
\<close>

datatype jsval =
    Undefined
  | Null
  | Bool bool
  | Num int
  | Str string
  | Arr "jsval list"
  | Obj "(string \<times> jsval) list"

text \<open>
  What a \<open>throw\<close> raises: a plain value (line 183 throws \<open>response.message\<close> as it is),
  or an Error object of the runtime or of a library, kept as the text its \<open>toString()\<close>
  gives.
\<close>

datatype thrown = Value jsval | ErrorObject string

definition TypeError :: "string \<Rightarrow> thrown" where
  "TypeError msg = ErrorObject (''TypeError: '' @ msg)"

fun digits :: "nat \<Rightarrow> string" where
  "digits n = (if n < 10 then [char_of (48 + n)] else digits (n div 10) @ [char_of (48 + n mod 10)])"

definition number_string :: "int \<Rightarrow> string" where
  "number_string i = (if i < 0 then CHR ''-'' # digits (nat (- i)) else digits (nat i))"

text \<open>
  \<open>Object.prototype\<close> is shared by every plain object of the process, and the program
  can write to it (see the transform below). Its state is the list of the string-valued
  properties written so far; they shadow the built-in members of the same name.
\<close>

type_synonym props = "(string \<times> string) list"

definition builtin_members :: "string list" where
  "builtin_members =
     [''constructor'', ''__defineGetter__'', ''__defineSetter__'', ''hasOwnProperty'',
      ''__lookupGetter__'', ''__lookupSetter__'', ''isPrototypeOf'', ''propertyIsEnumerable'',
      ''toString'', ''valueOf'', ''toLocaleString'']"

text \<open>
  The abstract operation \<open>ToString\<close>, as string concatenation, \<open>Array.prototype.join\<close>
  and \<open>URLSearchParams\<close> apply it. An array joins its elements with commas, \<open>null\<close>
  and \<open>undefined\<close> elements giving the empty string. A parsed object uses
  \<open>Object.prototype.toString\<close> unless a property of that name is its own or has been
  written over the built-in one; such a property is a JSON value or a string, never
  callable, and \<open>valueOf\<close> then returns no primitive, so the conversion throws.
\<close>

fun ToString :: "props \<Rightarrow> jsval \<Rightarrow> thrown + string"
  and join_elements :: "props \<Rightarrow> jsval list \<Rightarrow> thrown + string" where
  "ToString proto Undefined = Inr ''undefined''"
| "ToString proto Null = Inr ''null''"
| "ToString proto (Bool b) = Inr (if b then ''true'' else ''false'')"
| "ToString proto (Num n) = Inr (number_string n)"
| "ToString proto (Str s) = Inr s"
| "ToString proto (Arr xs) = join_elements proto xs"
| "ToString proto (Obj ps) =
     (if ''toString'' \<in> fst ` set ps \<or> ''toString'' \<in> fst ` set proto
      then Inl (TypeError ''Cannot convert object to primitive value'')
      else Inr ''[object Object]'')"
| "join_elements proto [] = Inr []"
| "join_elements proto (x # xs) =
     (case (if x = Null \<or> x = Undefined then Inr [] else ToString proto x) of
        Inl e \<Rightarrow> Inl e
      | Inr s \<Rightarrow>
          (case join_elements proto xs of
             Inl e \<Rightarrow> Inl e
           | Inr r \<Rightarrow> Inr (if xs = [] then s else s @ '','' @ r)))"

text \<open>
  The method call \<open>message.toString()\<close> of \<open>logError\<close> (line 98): reading the property
  of \<open>undefined\<close> or \<open>null\<close> throws, and so does calling a \<open>toString\<close> that is not a
  function; an Error object prints its text.
\<close>

fun toString :: "props \<Rightarrow> thrown \<Rightarrow> thrown + string" where
  "toString proto (ErrorObject text) = Inr text"
| "toString proto (Value Undefined) =
     Inl (TypeError ''Cannot read properties of undefined (reading toString)'')"
| "toString proto (Value Null) =
     Inl (TypeError ''Cannot read properties of null (reading toString)'')"
| "toString proto (Value (Obj ps)) =
     (if ''toString'' \<in> fst ` set ps \<or> ''toString'' \<in> fst ` set proto
      then Inl (TypeError ''message.toString is not a function'')
      else Inr ''[object Object]'')"
| "toString proto (Value v) = ToString proto v"

text \<open>
  Reading a property by one of the names the program uses (\<open>id\<close>, \<open>secret\<close>, \<open>path\<close>,
  \<open>ok\<close>, \<open>message\<close>, \<open>data\<close>), none of which a built-in prototype defines: the own
  property of an object, else what has been written to \<open>Object.prototype\<close> under that
  name, else \<open>undefined\<close>. Reading from \<open>undefined\<close> or \<open>null\<close> throws.
\<close>

definition inherited :: "props \<Rightarrow> string \<Rightarrow> jsval" where
  "inherited proto name = (case map_of proto name of Some s \<Rightarrow> Str s | None \<Rightarrow> Undefined)"

fun get_prop :: "props \<Rightarrow> jsval \<Rightarrow> string \<Rightarrow> thrown + jsval" where
  "get_prop proto Undefined name =
     Inl (TypeError (''Cannot read properties of undefined (reading '' @ name @ '')''))"
| "get_prop proto Null name =
     Inl (TypeError (''Cannot read properties of null (reading '' @ name @ '')''))"
| "get_prop proto (Obj ps) name =
     (case map_of ps name of Some v \<Rightarrow> Inr v | None \<Rightarrow> Inr (inherited proto name))"
| "get_prop proto v name = Inr (inherited proto name)"

text \<open>Truthiness, as \<open>!response.ok\<close> tests it.\<close>

fun truthy :: "jsval \<Rightarrow> bool" where
  "truthy Undefined = False"
| "truthy Null = False"
| "truthy (Bool b) = b"
| "truthy (Num n) = (n \<noteq> 0)"
| "truthy (Str s) = (s \<noteq> [])"
| "truthy (Arr xs) = True"
| "truthy (Obj ps) = True"


section \<open>The transform\<close>

text \<open>
  The remote payload, in the shape of the data model: key records
  \<open>{key, localizations: [{code, value}]}\<close> whose fields are strings.
\<close>

record localization =
  code :: string
  val :: string

record key_record =
  key :: string
  localizations :: "localization list"

text \<open>
  The loop of lines 190-200 works on the local object \<open>localizations\<close>, created by
  \<open>{}\<close>, and, through its prototype chain, on \<open>Object.prototype\<close>. An object is the
  list of its own properties in insertion order.
\<close>

record heap =
  locs :: "(string \<times> props) list"
  object_prototype :: props

text \<open>
  What \<open>localizations[localization.code]\<close> evaluates to: an own property (an inner map made
  at line 195); for \<open>__proto__\<close>, the accessor of \<open>Object.prototype\<close> returns the prototype
  itself; a string written to \<open>Object.prototype\<close> earlier; a built-in method of
  \<open>Object.prototype\<close>; or \<open>undefined\<close>.
\<close>

datatype target =
    InnerMap string
  | ObjectPrototype
  | StringValue string
  | BuiltinFunction string
  | Absent

definition lookup :: "heap \<Rightarrow> string \<Rightarrow> target" where
  "lookup h c =
     (case map_of (locs h) c of
        Some inner \<Rightarrow> InnerMap c
      | None \<Rightarrow>
          if c = ''__proto__'' then ObjectPrototype
          else (case map_of (object_prototype h) c of
                  Some s \<Rightarrow> StringValue s
                | None \<Rightarrow> if c \<in> set builtin_members then BuiltinFunction c else Absent))"

text \<open>
  The assignment \<open>target[key.key] = localization.value\<close> of line 198, in strict mode (the
  file is an ES module). The name \<open>__proto__\<close> reaches the setter of \<open>Object.prototype\<close>,
  which ignores a string. Otherwise: an inner map and \<open>Object.prototype\<close> take the
  property; a string cannot take one; a built-in function takes it out of sight of the
  output, unless the name is one of its read-only or poisoned properties.
\<close>

definition readonly_of :: "string \<Rightarrow> string list" where
  "readonly_of f =
     (if f = ''constructor'' then [''length'', ''name'', ''prototype'', ''caller'', ''arguments'']
      else [''length'', ''name'', ''caller'', ''arguments''])"

fun assign :: "target \<Rightarrow> string \<Rightarrow> string \<Rightarrow> heap \<Rightarrow> thrown + heap" where
  "assign (InnerMap c) k v h =
     (if k = ''__proto__'' then Inr h
      else Inr (h\<lparr>locs := AList.map_entry c (AList.update k v) (locs h)\<rparr>))"
| "assign ObjectPrototype k v h =
     (if k = ''__proto__'' then Inr h
      else Inr (h\<lparr>object_prototype := AList.update k v (object_prototype h)\<rparr>))"
| "assign (StringValue s) k v h =
     (if k = ''__proto__'' then Inr h
      else Inl (TypeError (''Cannot create property '' @ k @ '' on string '' @ s)))"
| "assign (BuiltinFunction f) k v h =
     (if k = ''__proto__'' then Inr h
      else if k \<in> set (readonly_of f)
      then Inl (TypeError (''Cannot assign to read only property '' @ k @ '' of function''))
      else Inr h)"
| "assign Absent k v h =
     Inl (TypeError (''Cannot set properties of undefined (setting '' @ k @ '')''))"

text \<open>The body of the inner callback, lines 194-198.\<close>

definition insert_localization :: "string \<Rightarrow> localization \<Rightarrow> heap \<Rightarrow> thrown + heap" where
  "insert_localization k l h =
     (let h' = (if lookup h (code l) = Absent
                then h\<lparr>locs := locs h @ [(code l, [])]\<rparr>
                else h)
      in assign (lookup h' (code l)) k (val l) h')"

text \<open>
  The two \<open>forEach\<close> loops. A throw leaves the loop with the heap as it is: the object
  \<open>localizations\<close> is dropped, what was written to \<open>Object.prototype\<close> stays.
\<close>

fun forEach_localization :: "string \<Rightarrow> localization list \<Rightarrow> heap \<Rightarrow> heap \<times> thrown option" where
  "forEach_localization k [] h = (h, None)"
| "forEach_localization k (l # ls) h =
     (case insert_localization k l h of
        Inl e \<Rightarrow> (h, Some e)
      | Inr h' \<Rightarrow> forEach_localization k ls h')"

fun forEach_key :: "key_record list \<Rightarrow> heap \<Rightarrow> heap \<times> thrown option" where
  "forEach_key [] h = (h, None)"
| "forEach_key (r # rs) h =
     (case forEach_localization (key r) (localizations r) h of
        (h', Some e) \<Rightarrow> (h', Some e)
      | (h', None) \<Rightarrow> forEach_key rs h')"

text \<open>
  Lines 190-200: \<open>localizations\<close> starts empty. The result is the new state of
  \<open>Object.prototype\<close> and either what was thrown or the finished object.
\<close>

definition transform :: "props \<Rightarrow> key_record list \<Rightarrow> props \<times> (thrown + (string \<times> props) list)" where
  "transform proto ks =
     (case forEach_key ks \<lparr>locs = [], object_prototype = proto\<rparr> of
        (h, Some e) \<Rightarrow> (object_prototype h, Inl e)
      | (h, None) \<Rightarrow> (object_prototype h, Inr (locs h)))"

text \<open>The finished object as a value: a map from locale code to a map from key to text.\<close>

definition as_map :: "(string \<times> props) list \<Rightarrow> (string \<rightharpoonup> (string \<rightharpoonup> string))" where
  "as_map ls = map_option map_of \<circ> map_of ls"

text \<open>
  The transform in the words of the specification (4.3): for each key record, for each
  localization, \<open>output[code][key] = value\<close>, with a new inner map at the first sight of
  a code.
\<close>

definition insert_entry ::
  "(string \<rightharpoonup> (string \<rightharpoonup> string)) \<Rightarrow> string \<Rightarrow> string \<Rightarrow> string \<Rightarrow> (string \<rightharpoonup> (string \<rightharpoonup> string))" where
  "insert_entry out c k v =
     out(c \<mapsto> (case out c of None \<Rightarrow> Map.empty | Some inner \<Rightarrow> inner)(k \<mapsto> v))"

definition spec_transform :: "key_record list \<Rightarrow> (string \<rightharpoonup> (string \<rightharpoonup> string))" where
  "spec_transform ks =
     fold (\<lambda>r out. fold (\<lambda>l out'. insert_entry out' (code l) (key r) (val l)) (localizations r) out)
       ks Map.empty"

text \<open>
  Names that the objects of the transform do not inherit: a key other than \<open>__proto__\<close>,
  a code that is neither \<open>__proto__\<close> nor a built-in member of \<open>Object.prototype\<close>.
\<close>

definition plain_code :: "string \<Rightarrow> bool" where
  "plain_code c = (c \<noteq> ''__proto__'' \<and> c \<notin> set builtin_members)"

definition plain_record :: "key_record \<Rightarrow> bool" where
  "plain_record r = (key r \<noteq> ''__proto__'' \<and> list_all (\<lambda>l. plain_code (code l)) (localizations r))"

text \<open>
  The assignments of a payload in iteration order, each with the place \<open>(code, key)\<close> it
  writes to, and the entry of a result at a place.
\<close>

definition writes_of :: "key_record list \<Rightarrow> ((string \<times> string) \<times> string) list" where
  "writes_of ks = concat (map (\<lambda>r. map (\<lambda>l. ((code l, key r), val l)) (localizations r)) ks)"

definition entry :: "(string \<rightharpoonup> (string \<rightharpoonup> string)) \<Rightarrow> string \<Rightarrow> string \<Rightarrow> string option" where
  "entry out c k = (case out c of None \<Rightarrow> None | Some inner \<Rightarrow> inner k)"

section \<open>The process and its environment\<close>

text \<open>
  What a run does to the outside world, in order: lines on standard output and standard
  error, the prompts and the spinner of the terminal, the HTTP request (by the two query
  values it carries) and the calls of \<open>fs.writeFileSync\<close>.
\<close>

datatype event =
    ConsoleLog string
  | ConsoleError string
  | Prompt string
  | SpinnerStart string
  | SpinnerSuccess
  | SpinnerError
  | HttpGet string string
  | FileWrite path string

text \<open>
  The state a run works on: \<open>process.exitCode\<close> (\<open>None\<close> while nothing has been
  assigned to it; the process then exits with 0), the events so far, the file system,
  \<open>Object.prototype\<close>, and whether the local variable \<open>spinner\<close> of the update branch
  holds a spinner.
\<close>

record state =
  exitCode :: "nat option"
  trace :: "event list"
  files :: filesystem
  prototype :: props
  spinner :: bool

text \<open>
  What the libraries and the outside world answer. \<open>JSON_parse\<close> is \<open>JSON.parse\<close> on the
  text of the config file, \<open>JSON_stringify\<close> is \<open>JSON.stringify\<close>, \<open>axios_get\<close> is the
  \<open>data\<close> of the response to the request with the given \<open>id\<close> and \<open>secret\<close> (or what
  the client throws on a transport failure or a status outside 2xx). \<open>payload\<close> is
  \<open>JSON.parse(response.data)\<close>: what the parser throws, or the key records of a parsed
  value that has the shape of the data model; values of another shape are not modelled.
  \<open>join_path\<close> is \<open>path.join\<close> of a directory and the configured relative path.
  \<open>spinner_start\<close> is what \<open>createSpinner(text).start()\<close> of nanospinner throws, if
  anything, and \<open>spinner_stop\<close> what \<open>spinner.success()\<close> or \<open>spinner.error()\<close>
  throws: their option objects are plain objects, so the answer depends on what they
  inherit from \<open>Object.prototype\<close> (a \<open>color\<close> that is no colour makes the call throw). The \<open>chalk\<close> functions style a text; the last four fields are what the
  user answers to the prompts, or the rejection of a prompt that is aborted.
\<close>

record env =
  cwd :: path
  JSON_parse :: "string \<Rightarrow> thrown + jsval"
  JSON_stringify :: "jsval \<Rightarrow> string"
  axios_get :: "string \<Rightarrow> string \<Rightarrow> thrown + jsval"
  payload :: "jsval \<Rightarrow> thrown + key_record list"
  join_path :: "path \<Rightarrow> string \<Rightarrow> path"
  spinner_start :: "props \<Rightarrow> thrown option"
  spinner_stop :: "props \<Rightarrow> thrown option"
  chalk_red :: "string \<Rightarrow> string"
  chalk_bold :: "string \<Rightarrow> string"
  chalk_yellow :: "string \<Rightarrow> string"
  chalk_green :: "string \<Rightarrow> string"
  confirm :: "thrown + bool"
  input_id :: "thrown + string"
  password_secret :: "thrown + string"
  input_path :: "thrown + string"

text \<open>The parsed command line (\<open>parseArgumentsIntoOptions\<close>, lines 12-33).\<close>

record options =
  command :: "string option"
  opt_id :: "string option"
  opt_secret :: "string option"
  opt_path :: "string option"

text \<open>\<open>!options.command\<close>: an option that is absent or the empty string.\<close>

definition missing :: "string option \<Rightarrow> bool" where
  "missing s = (s = None \<or> s = Some [])"

text \<open>
  A statement sequence that may throw: it takes the state and returns the new state with
  what was thrown or the result.
\<close>

type_synonym 'a action = "state \<Rightarrow> state \<times> (thrown + 'a)"

definition ret :: "'a \<Rightarrow> 'a action" where
  "ret x s = (s, Inr x)"

definition raise :: "thrown \<Rightarrow> 'a action" where
  "raise e s = (s, Inl e)"

definition lift :: "thrown + 'a \<Rightarrow> 'a action" where
  "lift r s = (s, r)"

definition bind :: "'a action \<Rightarrow> ('a \<Rightarrow> 'b action) \<Rightarrow> 'b action" where
  "bind m f s = (case m s of (s', Inl e) \<Rightarrow> (s', Inl e) | (s', Inr x) \<Rightarrow> f x s')"

definition emit :: "event \<Rightarrow> unit action" where
  "emit ev s = (s\<lparr>trace := trace s @ [ev]\<rparr>, Inr ())"

definition get :: "jsval \<Rightarrow> string \<Rightarrow> jsval action" where
  "get v name s = (s, get_prop (prototype s) v name)"

definition to_string :: "jsval \<Rightarrow> string action" where
  "to_string v s = (s, ToString (prototype s) v)"

text \<open>
  \<open>spinner = createSpinner(text).start()\<close>: when the call throws, nothing is shown and
  the variable keeps what it held. \<open>spinner.success()\<close> and \<open>spinner.error()\<close> likewise
  show their mark only when they do not throw.
\<close>

definition createSpinner :: "env \<Rightarrow> string \<Rightarrow> unit action" where
  "createSpinner e text s =
     (case spinner_start e (prototype s) of
        Some err \<Rightarrow> (s, Inl err)
      | None \<Rightarrow> (s\<lparr>trace := trace s @ [SpinnerStart text], spinner := True\<rparr>, Inr ()))"

definition spinner_success :: "env \<Rightarrow> unit action" where
  "spinner_success e s =
     (case spinner_stop e (prototype s) of
        Some err \<Rightarrow> (s, Inl err)
      | None \<Rightarrow> emit SpinnerSuccess s)"

definition spinner_error :: "env \<Rightarrow> unit action" where
  "spinner_error e s =
     (case spinner_stop e (prototype s) of
        Some err \<Rightarrow> (s, Inl err)
      | None \<Rightarrow> emit SpinnerError s)"

subsection \<open>Files\<close>

definition path_string :: "path \<Rightarrow> string" where
  "path_string p = (if p = [] then ''/'' else concat (map (\<lambda>seg. CHR ''/'' # seg) p))"

definition is_dir :: "filesystem \<Rightarrow> path \<Rightarrow> bool" where
  "is_dir fs d = (d = [] \<or> fs d = Some Dir)"

text \<open>
  \<open>readFile\<close> and \<open>writeFile\<close> (lines 101-107) pass the options \<open>{encoding: 'utf-8'}\<close>
  to \<open>fs.readFileSync\<close> and \<open>fs.writeFileSync\<close>, which read the option \<open>flag\<close> from
  that object. The object is a plain one: a \<open>flag\<close> written to \<open>Object.prototype\<close> is
  the flag the file is opened with. The flags are those of the runtime's file system
  interface: whether the file is opened for reading, for writing, for appending, whether
  it is created when absent, emptied when present, and refused when present. The runtime
  also checks other options that it finds on the object (\<open>signal\<close>, and for a write
  \<open>mode\<close> and \<open>flush\<close>); what it does with inherited ones depends on its version and
  is left out.
\<close>

record open_mode =
  reads :: bool
  writes :: bool
  appends :: bool
  creates :: bool
  truncates :: bool
  exclusive :: bool

definition mode :: "bool \<Rightarrow> bool \<Rightarrow> bool \<Rightarrow> bool \<Rightarrow> bool \<Rightarrow> bool \<Rightarrow> open_mode" where
  "mode r w a c t x =
     \<lparr>reads = r, writes = w, appends = a, creates = c, truncates = t, exclusive = x\<rparr>"

definition stringToFlags :: "string \<Rightarrow> open_mode option" where
  "stringToFlags f =
     (if f \<in> set [''r'', ''rs'', ''sr''] then Some (mode True False False False False False)
      else if f \<in> set [''r+'', ''rs+'', ''sr+''] then Some (mode True True False False False False)
      else if f = ''w'' then Some (mode False True False True True False)
      else if f \<in> set [''wx'', ''xw''] then Some (mode False True False True True True)
      else if f = ''w+'' then Some (mode True True False True True False)
      else if f \<in> set [''wx+'', ''xw+''] then Some (mode True True False True True True)
      else if f \<in> set [''a'', ''as'', ''sa''] then Some (mode False True True True False False)
      else if f \<in> set [''ax'', ''xa''] then Some (mode False True True True False True)
      else if f \<in> set [''a+'', ''as+'', ''sa+''] then Some (mode True True True True False False)
      else if f \<in> set [''ax+'', ''xa+''] then Some (mode True True True True False True)
      else None)"

definition system_error :: "string \<Rightarrow> thrown" where
  "system_error what = ErrorObject (''Error: '' @ what)"

definition invalid_flags :: thrown where
  "invalid_flags = ErrorObject ''TypeError [ERR_INVALID_ARG_VALUE]: The argument flags is invalid''"

text \<open>
  Opening a path: what the open itself does to the file system, before anything is read
  or written.
\<close>

definition open_file :: "open_mode \<Rightarrow> path \<Rightarrow> filesystem \<Rightarrow> thrown + filesystem" where
  "open_file m p fs =
     (if is_dir fs p then
        (if exclusive m then Inl (system_error ''EEXIST: file already exists, open'')
         else if writes m then Inl (system_error ''EISDIR: illegal operation on a directory, open'')
         else Inr fs)
      else case fs p of
        Some n \<Rightarrow>
          (if exclusive m then Inl (system_error ''EEXIST: file already exists, open'')
           else if truncates m then Inr (fs(p \<mapsto> File []))
           else Inr fs)
      | None \<Rightarrow>
          (if creates m \<and> is_dir fs (dirname p) then Inr (fs(p \<mapsto> File []))
           else Inl (system_error ''ENOENT: no such file or directory, open'')))"

text \<open>
  \<open>readFile\<close> (lines 105-107). Without an inherited \<open>flag\<close> the file is opened for
  reading only. With one, the open may create or empty the file first, and a file that
  is not opened for reading cannot be read.
\<close>

definition readFile :: "path \<Rightarrow> string action" where
  "readFile p s =
     (case (case map_of (prototype s) ''flag'' of
              None \<Rightarrow> stringToFlags ''r''
            | Some f \<Rightarrow> stringToFlags f) of
        None \<Rightarrow> (s, Inl invalid_flags)
      | Some m \<Rightarrow>
          (case open_file m p (files s) of
             Inl err \<Rightarrow> (s, Inl err)
           | Inr fs \<Rightarrow>
               if reads m then
                 (case (if is_dir fs p then None else fs p) of
                    Some (File contents) \<Rightarrow> (s\<lparr>files := fs\<rparr>, Inr contents)
                  | _ \<Rightarrow> (s\<lparr>files := fs\<rparr>,
                          Inl (system_error ''EISDIR: illegal operation on a directory, read'')))
               else (s\<lparr>files := fs\<rparr>, Inl (system_error ''EBADF: bad file descriptor, read''))))"

text \<open>
  \<open>writeFile\<close> (lines 101-103): the call is an event whether it succeeds or not. The
  flag is \<open>options.flag || 'w'\<close>. After the open, the text goes to the end of the file
  when the flag appends and over its beginning otherwise; with the flag \<open>w\<close> the file
  was emptied by the open and ends holding exactly the text.
\<close>

definition writeFile :: "path \<Rightarrow> string \<Rightarrow> unit action" where
  "writeFile p contents s =
     (let s1 = s\<lparr>trace := trace s @ [FileWrite p contents]\<rparr> in
      case stringToFlags (case map_of (prototype s) ''flag'' of
                            None \<Rightarrow> ''w''
                          | Some f \<Rightarrow> if f = [] then ''w'' else f) of
        None \<Rightarrow> (s1, Inl invalid_flags)
      | Some m \<Rightarrow>
          (case open_file m p (files s) of
             Inl err \<Rightarrow> (s1, Inl err)
           | Inr fs \<Rightarrow>
               if writes m then
                 (case (if is_dir fs p then None else fs p) of
                    Some (File old) \<Rightarrow>
                      (s1\<lparr>files := fs(p \<mapsto> File (if appends m then old @ contents
                                                     else contents @ drop (length contents) old))\<rparr>,
                       Inr ())
                  | _ \<Rightarrow> (s1\<lparr>files := fs\<rparr>,
                          Inl (system_error ''EISDIR: illegal operation on a directory, write'')))
               else (s1\<lparr>files := fs\<rparr>, Inl (system_error ''EBADF: bad file descriptor, write''))))"

subsection \<open>Messages\<close>

definition newline :: char where
  "newline = CHR 0x0A"

text \<open>\<open>.split('\n').join('\n       ')\<close> of line 98: seven spaces after every line break.\<close>

fun indent :: "string \<Rightarrow> string" where
  "indent [] = []"
| "indent (c # cs) = (if c = newline then c # ''       '' @ indent cs else c # indent cs)"

text \<open>\<open>logError\<close> (lines 97-99).\<close>

definition logError :: "env \<Rightarrow> thrown \<Rightarrow> unit action" where
  "logError e message s =
     (case toString (prototype s) message of
        Inl err \<Rightarrow> (s, Inl err)
      | Inr text \<Rightarrow> emit (ConsoleError (chalk_red e ''error: '' @ indent text)) s)"

definition quote :: string where
  "quote = [CHR 0x27]"

definition usage :: string where
  "usage = concat
     [''Usage: apploc <command> [options]'', [newline],
      [newline],
      ''Commands:'', [newline],
      ''  init     Initialize a new AppLoc project with the necessary configuration.'', [newline],
      ''  update   Fetch and update the localization file based on the current configuration.'', [newline],
      ''  help     Display this help message.'', [newline],
      [newline],
      ''Options (only for '', quote, ''init'', quote, '' command):'', [newline],
      ''  -i, --id        Project ID.'', [newline],
      ''  -s, --secret    Project secret.'', [newline],
      ''  -p, --path      Path to the localization file (default: /localization.json).'', [newline],
      [newline],
      ''Examples:'', [newline],
      ''  apploc init --id myProjectID --secret myProjectSecret --path /path/to/localization.json'', [newline],
      ''  apploc update'']"

definition printUsage :: "unit action" where
  "printUsage = emit (ConsoleLog usage)"

text \<open>The message of lines 152-159.\<close>

definition no_config_message :: "env \<Rightarrow> string" where
  "no_config_message e =
     ''unable to find '' @ configFileName @ '' in '' @ chalk_bold e (path_string (cwd e)) @
     '' or any of its parents'' @ [newline] @ ''initialize your project by executing '' @
     chalk_bold e ''apploc init''"

text \<open>The bytes the source file has between the quotes of line 215.\<close>

definition check_mark :: string where
  "check_mark = [CHR 0xC3, CHR 0xA2, CHR 0xC5, CHR 0x93, CHR 0xE2, CHR 0x80, CHR 0x9D]"

definition unchanged_message :: "env \<Rightarrow> string" where
  "unchanged_message e = chalk_green e check_mark @ '' Nothing has changed since the last version''"

section \<open>The update command\<close>

text \<open>
  Lines 167-180: the config is read and parsed, the spinner starts, and the project data
  is requested with the \<open>id\<close> and \<open>secret\<close> of the config as \<open>URLSearchParams\<close> writes
  them.
\<close>

definition fetch_response :: "env \<Rightarrow> path \<Rightarrow> (jsval \<times> jsval) action" where
  "fetch_response e configPath =
     bind (readFile configPath) (\<lambda>text.
     bind (lift (JSON_parse e text)) (\<lambda>config.
     bind (createSpinner e ''Fetching updates...'') (\<lambda>_.
     bind (get config ''id'') (\<lambda>id_value.
     bind (get config ''secret'') (\<lambda>secret_value.
     bind (to_string id_value) (\<lambda>id_text.
     bind (to_string secret_value) (\<lambda>secret_text.
     bind (emit (HttpGet id_text secret_text)) (\<lambda>_.
     bind (lift (axios_get e id_text secret_text)) (\<lambda>response.
     ret (config, response))))))))))"

text \<open>Lines 182-184: \<open>if (!response.ok) throw response.message\<close>.\<close>

definition check_envelope :: "jsval \<Rightarrow> unit action" where
  "check_envelope response =
     bind (get response ''ok'') (\<lambda>ok.
     if truthy ok then ret ()
     else bind (get response ''message'') (\<lambda>message. raise (Value message)))"

text \<open>The object \<open>localizations\<close> as \<open>JSON.stringify\<close> receives it.\<close>

definition object_of :: "(string \<times> props) list \<Rightarrow> jsval" where
  "object_of ls = Obj (map (\<lambda>(c, inner). (c, Obj (map (\<lambda>(k, v). (k, Str v)) inner))) ls)"

text \<open>Lines 186-204: the transform and the serialisation of its result.\<close>

definition run_transform :: "key_record list \<Rightarrow> ((string \<times> props) list) action" where
  "run_transform ks s =
     (case transform (prototype s) ks of
        (proto, r) \<Rightarrow> (s\<lparr>prototype := proto\<rparr>, r))"

definition build_json :: "env \<Rightarrow> jsval \<Rightarrow> string action" where
  "build_json e response =
     bind (spinner_success e) (\<lambda>_.
     bind (createSpinner e ''Creating optimized localizations...'') (\<lambda>_.
     bind (get response ''data'') (\<lambda>data.
     bind (lift (payload e data)) (\<lambda>ks.
     bind (run_transform ks) (\<lambda>ls.
     bind (spinner_success e) (\<lambda>_.
     ret (JSON_stringify e (object_of ls))))))))"

text \<open>
  Line 206: \<open>path.join(path.dirname(configPath), config.path)\<close>; \<open>path.join\<close> throws on
  an argument that is not a string.
\<close>

definition localization_path :: "env \<Rightarrow> path \<Rightarrow> jsval \<Rightarrow> path action" where
  "localization_path e configPath config =
     bind (get config ''path'') (\<lambda>p.
     case p of
       Str rel \<Rightarrow> ret (join_path e (dirname configPath) rel)
     | _ \<Rightarrow> raise (ErrorObject
         ''TypeError [ERR_INVALID_ARG_TYPE]: The path argument must be of type string''))"

text \<open>Lines 208-216: the writer.\<close>

definition write_new :: "env \<Rightarrow> path \<Rightarrow> string \<Rightarrow> unit action" where
  "write_new e localizationPath newJson =
     bind (createSpinner e (''Writing to '' @ path_string localizationPath @ ''...'')) (\<lambda>_.
     bind (writeFile localizationPath newJson) (\<lambda>_.
     spinner_success e))"

definition write_if_changed :: "env \<Rightarrow> path \<Rightarrow> string \<Rightarrow> unit action" where
  "write_if_changed e localizationPath newJson s =
     (if existsSync (files s) localizationPath
      then (case readFile localizationPath s of
              (s', Inl err) \<Rightarrow> (s', Inl err)
            | (s', Inr old) \<Rightarrow>
                if old = newJson then emit (ConsoleLog (unchanged_message e)) s'
                else write_new e localizationPath newJson s')
      else write_new e localizationPath newJson s)"

text \<open>The \<open>try\<close> block, lines 166-216, up to the writer and as a whole.\<close>

definition before_write :: "env \<Rightarrow> path \<Rightarrow> (path \<times> string) action" where
  "before_write e configPath =
     bind (fetch_response e configPath) (\<lambda>(config, response).
     bind (check_envelope response) (\<lambda>_.
     bind (build_json e response) (\<lambda>newJson.
     bind (localization_path e configPath config) (\<lambda>localizationPath.
     ret (localizationPath, newJson)))))"

definition try_block :: "env \<Rightarrow> path \<Rightarrow> unit action" where
  "try_block e configPath =
     bind (before_write e configPath) (\<lambda>(localizationPath, newJson).
     write_if_changed e localizationPath newJson)"

text \<open>
  How an \<open>async\<close> function ends: it returns, or its promise is rejected with what was
  thrown and not caught.
\<close>

datatype completion = Returned | Rejected thrown

definition finish :: "state \<times> (thrown + unit) \<Rightarrow> state \<times> completion" where
  "finish r = (case r of (s, Inl err) \<Rightarrow> (s, Rejected err) | (s, Inr u) \<Rightarrow> (s, Returned))"

text \<open>The \<open>catch\<close> block, lines 217-225.\<close>

definition catch_block :: "env \<Rightarrow> thrown \<Rightarrow> state \<Rightarrow> state \<times> completion" where
  "catch_block e error s =
     (case (if spinner s then spinner_error e s else (s, Inr ())) of
        (s1, Inl err) \<Rightarrow> (s1, Rejected err)
      | (s1, Inr u) \<Rightarrow>
          (case logError e error s1 of
             (s2, Inl err) \<Rightarrow> (s2, Rejected err)
           | (s2, Inr u') \<Rightarrow> (s2\<lparr>exitCode := Some 1\<rparr>, Returned)))"

text \<open>The update branch, lines 149-225, given what \<open>findConfig\<close> returned.\<close>

definition update :: "env \<Rightarrow> path option \<Rightarrow> state \<Rightarrow> state \<times> completion" where
  "update e found s =
     (case found of
        None \<Rightarrow>
          (case logError e (Value (Str (no_config_message e))) s of
             (s1, Inl err) \<Rightarrow> (s1, Rejected err)
           | (s1, Inr u) \<Rightarrow> (s1\<lparr>exitCode := Some 1\<rparr>, Returned))
      | Some configPath \<Rightarrow>
          (case try_block e configPath (s\<lparr>spinner := False\<rparr>) of
             (s1, Inl error) \<Rightarrow> catch_block e error s1
           | (s1, Inr u) \<Rightarrow> (s1, Returned)))"

section \<open>The init command\<close>

text \<open>\<open>promptForMissingOptions\<close> (lines 35-55) for the command \<open>init\<close>.\<close>

definition ask :: "string \<Rightarrow> thrown + 'a \<Rightarrow> 'a action" where
  "ask message answer = bind (emit (Prompt message)) (\<lambda>_. lift answer)"

definition option_or_ask :: "string option \<Rightarrow> string \<Rightarrow> thrown + string \<Rightarrow> string action" where
  "option_or_ask opt message answer =
     (if missing opt then ask message answer else ret (the opt))"

definition promptForMissingOptions :: "env \<Rightarrow> options \<Rightarrow> (string \<times> string \<times> string) action" where
  "promptForMissingOptions e opts =
     bind (option_or_ask (opt_id opts) ''Enter project ID'' (input_id e)) (\<lambda>i.
     bind (option_or_ask (opt_secret opts) ''Enter project secret'' (password_secret e)) (\<lambda>sec.
     bind (option_or_ask (opt_path opts) ''Enter localization path'' (input_path e)) (\<lambda>p.
     ret (i, sec, p))))"

text \<open>Lines 124-147.\<close>

definition save_config :: "env \<Rightarrow> options \<Rightarrow> unit action" where
  "save_config e opts =
     (let newConfigPath = path_join (cwd e) configFileName in
      bind (promptForMissingOptions e opts) (\<lambda>(i, sec, p).
      bind (writeFile newConfigPath
              (JSON_stringify e (Obj [(''id'', Str i), (''secret'', Str sec), (''path'', Str p)]))) (\<lambda>_.
      emit (ConsoleLog (''Saved to '' @ chalk_bold e (path_string newConfigPath) @ [newline] @
              ''Now you can execute '' @ chalk_bold e ''apploc update'' @
              '' to check the validity of the config.'')))))"

definition init :: "env \<Rightarrow> options \<Rightarrow> path option \<Rightarrow> unit action" where
  "init e opts found =
     (let newConfigPath = path_join (cwd e) configFileName in
      case found of
        None \<Rightarrow> save_config e opts
      | Some configPath \<Rightarrow>
          bind (emit (ConsoleLog (chalk_yellow e ''!'' @ '' Found config at '' @
                  chalk_bold e (path_string configPath)))) (\<lambda>_.
          bind (ask (''Do you still want to create '' @ path_string newConfigPath @ ''?'')
                  (confirm e)) (\<lambda>yes.
          if yes then save_config e opts else ret ())))"

section \<open>The command line interface\<close>

text \<open>
  \<open>cli\<close> (lines 109-231). The result is \<open>None\<close> where \<open>findConfig\<close> does not return.
\<close>

definition cli :: "env \<Rightarrow> options \<Rightarrow> state \<Rightarrow> (state \<times> completion) option" where
  "cli e opts s =
     (let s1 = (if missing (command opts) then s\<lparr>exitCode := Some 1\<rparr> else s) in
      if missing (command opts) \<or> command opts = Some ''help''
      then Some (finish (printUsage s1))
      else
        (case findConfig (files s1) (cwd e) of
           None \<Rightarrow> None
         | Some configPath \<Rightarrow>
             if command opts = Some ''init'' then Some (finish (init e opts configPath s1))
             else if command opts = Some ''update''
             then (case findConfig (files s1) (cwd e) of
                     None \<Rightarrow> None
                   | Some found \<Rightarrow> Some (update e found s1))
             else
               (case logError e (Value (Str (''unknown command: '' @ the (command opts)))) s1 of
                  (s2, Inl err) \<Rightarrow> Some (s2, Rejected err)
                | (s2, Inr u) \<Rightarrow> Some (s2\<lparr>exitCode := Some 1\<rparr>, Returned))))"

section \<open>Observing a run\<close>

text \<open>The events a run adds to the trace, and among them the calls that write a file.\<close>

definition new_events :: "state \<Rightarrow> state \<Rightarrow> event list" where
  "new_events s s' = drop (length (trace s)) (trace s')"

fun is_write :: "event \<Rightarrow> bool" where
  "is_write (FileWrite p contents) = True"
| "is_write ev = False"

text \<open>
  An action that leaves the files as they are and calls no write: from one state, and
  from every state.
\<close>

definition quiet_at :: "'a action \<Rightarrow> state \<Rightarrow> bool" where
  "quiet_at m s = (\<forall>s' r. m s = (s', r) \<longrightarrow>
     files s' = files s \<and> (\<exists>evs. trace s' = trace s @ evs \<and> filter is_write evs = []))"

definition quiet :: "'a action \<Rightarrow> bool" where
  "quiet m = (\<forall>s. quiet_at m s)"

text \<open>An action that leaves \<open>process.exitCode\<close> as it is.\<close>

definition keeps_exit :: "'a action \<Rightarrow> bool" where
  "keeps_exit m = (\<forall>s s' r. m s = (s', r) \<longrightarrow> exitCode s' = exitCode s)"

section \<open>A concrete environment\<close>

text \<open>
  A project in \<open>/home\<close> with the working directory \<open>/home/app\<close>, used to run the model on
  concrete inputs. The config parses to \<open>{id: "p1", secret: "s1", path: "localization.json"}\<close>;
  the answer of the server is the parameter. The spinner of this environment throws on an
  inherited \<open>color\<close> that is not the name of one of the colours of picocolors.
\<close>

definition sample_config :: jsval where
  "sample_config = Obj [(''id'', Str ''p1''), (''secret'', Str ''s1''), (''path'', Str ''localization.json'')]"

definition pico_colors :: "string list" where
  "pico_colors =
     [''reset'', ''bold'', ''dim'', ''italic'', ''underline'', ''inverse'', ''hidden'',
      ''strikethrough'', ''black'', ''red'', ''green'', ''yellow'', ''blue'', ''magenta'', ''cyan'',
      ''white'', ''gray'', ''bgBlack'', ''bgRed'', ''bgGreen'', ''bgYellow'', ''bgBlue'',
      ''bgMagenta'', ''bgCyan'', ''bgWhite'']"

definition sample_spinner :: "props \<Rightarrow> thrown option" where
  "sample_spinner proto =
     (case map_of proto ''color'' of
        None \<Rightarrow> None
      | Some c \<Rightarrow>
          if c = [] \<or> c \<in> set pico_colors then None
          else Some (TypeError ''pico[color] is not a function''))"

definition sample_env :: "thrown + jsval \<Rightarrow> env" where
  "sample_env answer =
     \<lparr>cwd = [''home'', ''app''],
      JSON_parse = (\<lambda>text. Inr sample_config),
      JSON_stringify = (\<lambda>v. if v = Obj [] then ''{}'' else ''{...}''),
      axios_get = (\<lambda>i sec. answer),
      payload = (\<lambda>data. Inr []),
      join_path = (\<lambda>dir rel. dir @ [rel]),
      spinner_start = sample_spinner,
      spinner_stop = sample_spinner,
      chalk_red = (\<lambda>t. t),
      chalk_bold = (\<lambda>t. t),
      chalk_yellow = (\<lambda>t. t),
      chalk_green = (\<lambda>t. t),
      confirm = Inr False,
      input_id = Inr ''p1'',
      password_secret = Inr ''s1'',
      input_path = Inr ''/localization.json''\<rparr>"

definition sample_files :: filesystem where
  "sample_files =
     Map.empty([''home''] \<mapsto> Dir, [''home'', ''app''] \<mapsto> Dir,
       [''home'', ''apploc.config.json''] \<mapsto> File ''config'')"

definition sample_state :: "filesystem \<Rightarrow> state" where
  "sample_state fs = \<lparr>exitCode = None, trace = [], files = fs, prototype = [], spinner = False\<rparr>"

definition update_options :: options where
  "update_options = \<lparr>command = Some ''update'', opt_id = None, opt_secret = None, opt_path = None\<rparr>"

text \<open>
  A server that answers \<open>{ok: true, data: ...}\<close> with the payload
  \<open>{keys: [{key: "flag", localizations: [{code: "__proto__", value: f}]}]}\<close>. The
  transform turns it into the empty object, serialised as \<open>{}\<close>, and writes
  \<open>Object.prototype.flag = f\<close> on the way.
\<close>

definition flag_payload :: "string \<Rightarrow> key_record list" where
  "flag_payload f = [\<lparr>key = ''flag'', localizations = [\<lparr>code = ''__proto__'', val = f\<rparr>]\<rparr>]"

definition ok_response :: jsval where
  "ok_response = Obj [(''ok'', Bool True), (''data'', Str ''payload'')]"

definition flag_env :: "string \<Rightarrow> env" where
  "flag_env f = (sample_env (Inr ok_response))\<lparr>payload := (\<lambda>data. Inr (flag_payload f))\<rparr>"

definition localization_file :: path where
  "localization_file = [''home'', ''localization.json'']"
section \<open>Properties of the config locator\<close>

lemma dirname_root: "dirname [] = []"
  by (simp add: dirname_def)

lemma dirname_snoc: "dirname (d @ [x]) = d"
  by (simp add: dirname_def)

lemma findConfig_walk:
  "findConfig fs d =
     Some (case List.find (\<lambda>a. existsSync fs (path_join a configFileName)) (ancestors d) of
             None \<Rightarrow> None
           | Some a \<Rightarrow> Some (path_join a configFileName))"
proof (induction d rule: rev_induct)
  case Nil
  show ?case
    by (subst findConfig.simps, subst ancestors.simps) (simp add: dirname_root)
next
  case (snoc x xs)
  have ne: "xs @ [x] \<noteq> dirname (xs @ [x])" by (simp add: dirname_snoc)
  show ?case
    by (subst findConfig.simps, subst ancestors.simps)
       (simp add: ne snoc.IH dirname_snoc)
qed


lemma ancestors_snoc: "ancestors (xs @ [x]) = (xs @ [x]) # ancestors xs"
  by (subst ancestors.simps) (simp add: dirname_snoc)

lemma ancestors_prefixes:
  "ancestors d = map (\<lambda>n. take n d) (rev [0..<Suc (length d)])"
proof (induction d rule: rev_induct)
  case Nil
  show ?case by (subst ancestors.simps) (simp add: dirname_root)
next
  case (snoc x xs)
  have "map (\<lambda>n. take n (xs @ [x])) (rev [0..<Suc (length xs)]) =
        map (\<lambda>n. take n xs) (rev [0..<Suc (length xs)])"
    by (rule map_cong) auto
  then show ?case by (simp add: ancestors_snoc snoc.IH)
qed

text \<open>
  C9. From every starting directory the walk of \<open>findConfig\<close> returns. It visits the
  start and then parent after parent, one directory for each segment of the path and the
  root last, where it stops: the parent of the root is the root.
\<close>

theorem findConfig_terminates:
  "(\<exists>r. findConfig fs startDir = Some r) \<and>
   length (ancestors startDir) = Suc (length startDir) \<and>
   last (ancestors startDir) = [] \<and> dirname [] = []"
  by (simp add: findConfig_walk ancestors_prefixes dirname_root last_map last_rev)

text \<open>
  C3, as the code has it. \<open>findConfig\<close> returns the path of the config file, not the
  directory: the file \<open>apploc.config.json\<close> inside the first of the directories
  start, parent, ..., root that has an entry of that name, and \<open>null\<close> (no exception)
  when none has. The directories are the prefixes of the start, longest first.
\<close>

theorem findConfig_nearest:
  "findConfig fs startDir =
     Some (case List.find (\<lambda>a. existsSync fs (path_join a configFileName))
                  (ancestors startDir) of
             None \<Rightarrow> None
           | Some a \<Rightarrow> Some (path_join a configFileName))
   \<and> ancestors startDir = map (\<lambda>n. take n startDir) (rev [0..<Suc (length startDir)])"
  using findConfig_walk ancestors_prefixes by simp

text \<open>
  C3 as stated fails: with \<open>/home/apploc.config.json\<close> present and the start \<open>/home\<close>,
  the locator returns the path of the file, not the directory \<open>/home\<close>.
\<close>

theorem findConfig_returns_file_path:
  "findConfig (Map.empty([''home'', ''apploc.config.json''] \<mapsto> File [])) [''home'']
     = Some (Some [''home'', ''apploc.config.json'']) \<and>
   findConfig (Map.empty([''home'', ''apploc.config.json''] \<mapsto> File [])) [''home'']
     \<noteq> Some (Some [''home''])"
  by (simp add: findConfig.simps path_join_def configFileName_def existsSync_def)


section \<open>Properties of the transform\<close>

subsection \<open>Payloads with plain names\<close>

lemma as_map_map_entry_update:
  "map_of ls c = Some inner \<Longrightarrow>
   as_map (AList.map_entry c (AList.update k v) ls) = insert_entry (as_map ls) c k v"
  by (rule ext) (simp add: as_map_def insert_entry_def map_of_map_entry update_conv')

lemma insert_localization_plain:
  assumes "object_prototype h = []" "plain_code (code l)" "k \<noteq> ''__proto__''"
  shows "\<exists>h'. insert_localization k l h = Inr h' \<and> object_prototype h' = [] \<and>
          as_map (locs h') = insert_entry (as_map (locs h)) (code l) k (val l)"
proof (cases "map_of (locs h) (code l)")
  case None
  with assms have absent: "lookup h (code l) = Absent"
    by (simp add: lookup_def plain_code_def)
  let ?h = "h\<lparr>locs := locs h @ [(code l, [])]\<rparr>"
  have m: "map_of (locs ?h) (code l) = Some []"
    using None by (simp add: map_add_def)
  then have "lookup ?h (code l) = InnerMap (code l)" by (simp add: lookup_def)
  moreover have "as_map (AList.map_entry (code l) (AList.update k (val l)) (locs ?h))
        = insert_entry (as_map (locs h)) (code l) k (val l)"
    using None
    by (simp only: as_map_map_entry_update[OF m])
       (rule ext, auto simp: as_map_def insert_entry_def map_add_def split: option.splits)
  ultimately show ?thesis
    using assms absent by (simp add: insert_localization_def)
next
  case (Some inner)
  then have "lookup h (code l) = InnerMap (code l)" by (simp add: lookup_def)
  then show ?thesis
    using assms Some by (simp add: insert_localization_def as_map_map_entry_update)
qed

lemma forEach_localization_plain:
  assumes "object_prototype h = []" "list_all (\<lambda>l. plain_code (code l)) ls" "k \<noteq> ''__proto__''"
  shows "\<exists>h'. forEach_localization k ls h = (h', None) \<and> object_prototype h' = [] \<and>
          as_map (locs h') = fold (\<lambda>l out. insert_entry out (code l) k (val l)) ls (as_map (locs h))"
  using assms
proof (induction ls arbitrary: h)
  case Nil
  then show ?case by simp
next
  case (Cons l ls)
  from Cons.prems obtain h1 where
    h1: "insert_localization k l h = Inr h1" "object_prototype h1 = []"
        "as_map (locs h1) = insert_entry (as_map (locs h)) (code l) k (val l)"
    using insert_localization_plain[of h l k] by auto
  from Cons.IH[of h1] Cons.prems h1 show ?case by simp
qed

lemma forEach_key_plain:
  assumes "object_prototype h = []" "list_all plain_record ks"
  shows "\<exists>h'. forEach_key ks h = (h', None) \<and> object_prototype h' = [] \<and>
          as_map (locs h') =
            fold (\<lambda>r out. fold (\<lambda>l out'. insert_entry out' (code l) (key r) (val l)) (localizations r) out)
              ks (as_map (locs h))"
  using assms
proof (induction ks arbitrary: h)
  case Nil
  then show ?case by simp
next
  case (Cons r rs)
  from Cons.prems obtain h1 where
    h1: "forEach_localization (key r) (localizations r) h = (h1, None)" "object_prototype h1 = []"
        "as_map (locs h1) = fold (\<lambda>l out. insert_entry out (code l) (key r) (val l)) (localizations r) (as_map (locs h))"
    using forEach_localization_plain[of h "localizations r" "key r"] by (auto simp: plain_record_def)
  from Cons.IH[of h1] Cons.prems h1 show ?case by simp
qed

text \<open>
  On a payload whose names are plain, and with \<open>Object.prototype\<close> as the runtime starts
  it, the loop computes what the specification describes and leaves \<open>Object.prototype\<close>
  alone.
\<close>

lemma transform_plain:
  assumes "list_all plain_record ks"
  shows "\<exists>ls. transform [] ks = ([], Inr ls) \<and> as_map ls = spec_transform ks"
proof -
  obtain h' where "forEach_key ks \<lparr>locs = [], object_prototype = []\<rparr> = (h', None)"
    "object_prototype h' = []"
    "as_map (locs h') = spec_transform ks"
    using forEach_key_plain[of "\<lparr>locs = [], object_prototype = []\<rparr>" ks] assms
    by (auto simp: spec_transform_def as_map_def)
  then show ?thesis by (simp add: transform_def)
qed

text \<open>The example of the specification (section 8).\<close>

lemma transform_example:
  "transform []
     [\<lparr>key = ''hello'',
       localizations = [\<lparr>code = ''en'', val = ''Hi''\<rparr>, \<lparr>code = ''fr'', val = ''Salut''\<rparr>]\<rparr>]
   = ([], Inr [(''en'', [(''hello'', ''Hi'')]), (''fr'', [(''hello'', ''Salut'')])])"
  by (simp add: transform_def insert_localization_def lookup_def builtin_members_def)

subsection \<open>The last write wins\<close>

lemma entry_insert_entry:
  "entry (insert_entry out c' k' v) c k = (if (c, k) = (c', k') then Some v else entry out c k)"
  by (auto simp: entry_def insert_entry_def split: option.splits)

lemma entry_fold_localizations:
  "entry (fold (\<lambda>l out'. insert_entry out' (code l) k' (val l)) ls out) c k =
     (case map_of (rev (map (\<lambda>l. ((code l, k'), val l)) ls)) (c, k) of
        Some v \<Rightarrow> Some v
      | None \<Rightarrow> entry out c k)"
proof (induction ls arbitrary: out)
  case Nil
  show ?case by simp
next
  case (Cons l ls)
  show ?case
    by (simp add: Cons.IH entry_insert_entry map_add_def split: option.splits)
qed

lemma entry_fold_keys:
  "entry (fold (\<lambda>r out. fold (\<lambda>l out'. insert_entry out' (code l) (key r) (val l)) (localizations r) out)
            ks out) c k =
     (case map_of (rev (writes_of ks)) (c, k) of
        Some v \<Rightarrow> Some v
      | None \<Rightarrow> entry out c k)"
proof (induction ks arbitrary: out)
  case Nil
  show ?case by (simp add: writes_of_def)
next
  case (Cons r rs)
  have w: "writes_of (r # rs) = map (\<lambda>l. ((code l, key r), val l)) (localizations r) @ writes_of rs"
    by (simp add: writes_of_def)
  show ?case
    by (simp add: Cons.IH w entry_fold_localizations map_add_def split: option.splits)
qed

text \<open>
  In the specification's transform the entry at a place is the value of the last
  assignment to that place, and so it is in the code on a payload with plain names.
\<close>

lemma spec_transform_last_write:
  "entry (spec_transform ks) c k = map_of (rev (writes_of ks)) (c, k)"
proof -
  have "entry Map.empty c k = None" by (simp add: entry_def)
  then show ?thesis
    unfolding spec_transform_def by (simp only: entry_fold_keys split: option.splits) simp
qed

lemma transform_plain_last_write:
  assumes "list_all plain_record ks"
  shows "\<exists>ls. transform [] ks = ([], Inr ls) \<and>
           entry (as_map ls) c k = map_of (rev (writes_of ks)) (c, k)"
  using transform_plain[OF assms] spec_transform_last_write by auto

subsection \<open>Payloads with inherited names\<close>

text \<open>
  C1 at the payload \<open>{keys: [{key: "hello", localizations: [{code: "constructor", value:
  "Hi"}]}]}\<close>. The test of line 194 finds the inherited \<open>Object.prototype.constructor\<close>,
  so no inner map is made and line 198 writes to the function \<open>Object\<close>: the result is
  the empty object, where the specification's transform has \<open>output["constructor"]["hello"]
  = "Hi"\<close>.
\<close>

theorem transform_inherited_code:
  "transform []
     [\<lparr>key = ''hello'', localizations = [\<lparr>code = ''constructor'', val = ''Hi''\<rparr>]\<rparr>]
     = ([], Inr []) \<and>
   entry (spec_transform
     [\<lparr>key = ''hello'', localizations = [\<lparr>code = ''constructor'', val = ''Hi''\<rparr>]\<rparr>])
     ''constructor'' ''hello'' = Some ''Hi''"
  by (simp add: transform_def insert_localization_def lookup_def builtin_members_def
      readonly_of_def spec_transform_def entry_def insert_entry_def)

text \<open>
  C7 at a payload that assigns twice to the place \<open>("en", "__proto__")\<close>, first \<open>"A"\<close>,
  then \<open>"B"\<close>. Both assignments reach the setter of \<open>Object.prototype\<close>, which ignores
  a string: the result is \<open>{"en": {}}\<close> and holds neither value, where the last value
  written is \<open>"B"\<close>.
\<close>

theorem transform_proto_key:
  "transform []
     [\<lparr>key = ''__proto__'',
       localizations = [\<lparr>code = ''en'', val = ''A''\<rparr>, \<lparr>code = ''en'', val = ''B''\<rparr>]\<rparr>]
     = ([], Inr [(''en'', [])]) \<and>
   map_of (rev (writes_of
     [\<lparr>key = ''__proto__'',
       localizations = [\<lparr>code = ''en'', val = ''A''\<rparr>, \<lparr>code = ''en'', val = ''B''\<rparr>]\<rparr>]))
     (''en'', ''__proto__'') = Some ''B''"
  by (simp add: transform_def insert_localization_def lookup_def builtin_members_def writes_of_def)

text \<open>
  C8 at the payload \<open>{keys: [{key: "k", localizations: [{code: "en", value: "v"}]},
  {key: "en", localizations: [{code: "__proto__", value: "x"}]}]}\<close>. The first run gives
  \<open>{"en": {"k": "v"}}\<close> and leaves \<open>Object.prototype.en = "x"\<close> behind. A second run in
  the same process, on the same payload, finds that string at line 194 and throws at line
  198; and so does a first run that meets the two records in the other order.
\<close>

theorem transform_second_run:
  "transform []
     [\<lparr>key = ''k'', localizations = [\<lparr>code = ''en'', val = ''v''\<rparr>]\<rparr>,
      \<lparr>key = ''en'', localizations = [\<lparr>code = ''__proto__'', val = ''x''\<rparr>]\<rparr>]
     = ([(''en'', ''x'')], Inr [(''en'', [(''k'', ''v'')])]) \<and>
   transform [(''en'', ''x'')]
     [\<lparr>key = ''k'', localizations = [\<lparr>code = ''en'', val = ''v''\<rparr>]\<rparr>,
      \<lparr>key = ''en'', localizations = [\<lparr>code = ''__proto__'', val = ''x''\<rparr>]\<rparr>]
     = ([(''en'', ''x'')], Inl (TypeError ''Cannot create property k on string x'')) \<and>
   transform []
     [\<lparr>key = ''en'', localizations = [\<lparr>code = ''__proto__'', val = ''x''\<rparr>]\<rparr>,
      \<lparr>key = ''k'', localizations = [\<lparr>code = ''en'', val = ''v''\<rparr>]\<rparr>]
     = ([(''en'', ''x'')], Inl (TypeError ''Cannot create property k on string x''))"
  by (simp add: transform_def insert_localization_def lookup_def builtin_members_def)


section \<open>Properties of the command line interface\<close>

subsection \<open>Update without a config\<close>

lemma indent_plain: "newline \<notin> set msg \<Longrightarrow> indent msg = msg"
  by (induction msg) auto

lemma findConfig_absent:
  assumes "list_all (\<lambda>a. \<not> existsSync fs (path_join a configFileName)) (ancestors d)"
  shows "findConfig fs d = Some None"
proof -
  have "List.find (\<lambda>a. existsSync fs (path_join a configFileName)) (ancestors d) = None"
    using assms by (simp add: find_None_iff list_all_iff)
  then show ?thesis by (simp add: findConfig_walk)
qed

text \<open>
  C6. When no directory from the working directory up to the root has an entry
  \<open>apploc.config.json\<close>, the update command prints one line on standard error, sets the
  exit code to 1 and returns. The line ends by telling the user to execute
  \<open>apploc init\<close>. Nothing else happens: no request, no write, the files as they were.
\<close>

theorem update_without_config:
  assumes "command opts = Some ''update''"
    and "list_all (\<lambda>a. \<not> existsSync (files s) (path_join a configFileName)) (ancestors (cwd e))"
  shows "cli e opts s =
           Some (s\<lparr>trace := trace s @ [ConsoleError (chalk_red e ''error: '' @ indent (no_config_message e))],
                   exitCode := Some 1\<rparr>, Returned)
         \<and> (\<exists>before. no_config_message e =
               before @ ''initialize your project by executing '' @ chalk_bold e ''apploc init'')"
proof -
  have "findConfig (files s) (cwd e) = Some None"
    using assms(2) by (rule findConfig_absent)
  then have "cli e opts s =
           Some (s\<lparr>trace := trace s @ [ConsoleError (chalk_red e ''error: '' @ indent (no_config_message e))],
                   exitCode := Some 1\<rparr>, Returned)"
    using assms(1)
    by (simp add: cli_def missing_def update_def logError_def emit_def)
  moreover have "\<exists>before. no_config_message e =
               before @ ''initialize your project by executing '' @ chalk_bold e ''apploc init''"
    unfolding no_config_message_def
    by (rule exI[of _ "''unable to find '' @ configFileName @ '' in '' @ chalk_bold e (path_string (cwd e)) @
     '' or any of its parents'' @ [newline]"]) simp
  ultimately show ?thesis by simp
qed

lemma ancestors_sample: "ancestors [''home'', ''app''] = [''home'', ''app''] # [''home''] # [] # []"
  by (simp add: ancestors.simps dirname_def)

theorem update_without_config_witness:
  "cli (sample_env (Inl (ErrorObject ''unused''))) update_options (sample_state Map.empty) =
     Some (\<lparr>exitCode = Some 1,
             trace = [ConsoleError (''error: unable to find apploc.config.json in /home/app or any of its parents'' @
                        [newline] @ ''       initialize your project by executing apploc init'')],
             files = Map.empty, prototype = [], spinner = False\<rparr>, Returned)"
  using update_without_config[of update_options "sample_state Map.empty" "sample_env (Inl (ErrorObject ''unused''))"]
  by (simp add: update_options_def sample_state_def sample_env_def ancestors_sample existsSync_def
      path_join_def no_config_message_def configFileName_def path_string_def newline_def)


subsection \<open>The concrete environment\<close>

lemma findConfig_sample:
  "findConfig sample_files [''home'', ''app''] = Some (Some [''home'', ''apploc.config.json''])"
  by (simp add: findConfig.simps sample_files_def path_join_def configFileName_def
        existsSync_def dirname_def)

lemma sample_files_config:
  "sample_files [''home'', ''apploc.config.json''] = Some (File ''config'')"
  by (simp add: sample_files_def)

lemma readFile_sample_config:
  "readFile [''home'', ''apploc.config.json'']
     \<lparr>exitCode = x, trace = t, files = sample_files, prototype = [], spinner = b\<rparr> =
   (\<lparr>exitCode = x, trace = t, files = sample_files, prototype = [], spinner = b\<rparr>, Inr ''config'')"
  by (simp add: readFile_def stringToFlags_def mode_def open_file_def is_dir_def
        sample_files_config)

lemma fetch_response_sample:
  "fetch_response (sample_env (Inr response)) [''home'', ''apploc.config.json'']
     (sample_state sample_files\<lparr>spinner := False\<rparr>) =
   (\<lparr>exitCode = None, trace = [SpinnerStart ''Fetching updates...'', HttpGet ''p1'' ''s1''],
     files = sample_files, prototype = [], spinner = True\<rparr>, Inr (sample_config, response))"
  by (simp add: fetch_response_def bind_def ret_def lift_def emit_def get_def to_string_def
        createSpinner_def readFile_sample_config sample_env_def sample_state_def
        sample_config_def sample_spinner_def)


subsection \<open>Reading and writing without an inherited flag\<close>

lemma readFile_plain:
  assumes "map_of (prototype s) ''flag'' = None"
  shows "readFile p s =
     (s, if p = [] \<or> files s p = Some Dir
         then Inl (system_error ''EISDIR: illegal operation on a directory, read'')
         else case files s p of
           Some (File contents) \<Rightarrow> Inr contents
         | _ \<Rightarrow> Inl (system_error ''ENOENT: no such file or directory, open''))"
  using assms
  by (auto simp: readFile_def stringToFlags_def mode_def open_file_def is_dir_def
      split: option.splits node.splits)

lemma writeFile_plain:
  assumes "map_of (prototype s) ''flag'' = None" "\<not> is_dir (files s) p"
    "is_dir (files s) (dirname p)"
  shows "writeFile p contents s =
     (s\<lparr>trace := trace s @ [FileWrite p contents], files := (files s)(p \<mapsto> File contents)\<rparr>, Inr ())"
  using assms
  by (auto simp: writeFile_def stringToFlags_def mode_def open_file_def Let_def is_dir_def
      split: option.splits node.splits)

text \<open>
  The writer, when \<open>Object.prototype\<close> carries no \<open>flag\<close>, the spinner does not throw,
  the localization path is absent or a regular file and its directory exists: it leaves
  a file with the new content alone and reports that, and otherwise writes the new
  content, after which the file holds it.
\<close>

lemma writer_plain:
  assumes "map_of (prototype s) ''flag'' = None"
    and "spinner_start e (prototype s) = None" and "spinner_stop e (prototype s) = None"
    and "\<not> is_dir (files s) localizationPath" and "is_dir (files s) (dirname localizationPath)"
  shows "write_if_changed e localizationPath newJson s =
     (if files s localizationPath = Some (File newJson)
      then (s\<lparr>trace := trace s @ [ConsoleLog (unchanged_message e)]\<rparr>, Inr ())
      else (s\<lparr>trace := trace s @
                  [SpinnerStart (''Writing to '' @ path_string localizationPath @ ''...''),
                   FileWrite localizationPath newJson, SpinnerSuccess],
              spinner := True,
              files := (files s)(localizationPath \<mapsto> File newJson)\<rparr>, Inr ()))"
proof -
  let ?s1 = "s\<lparr>trace := trace s @ [SpinnerStart (''Writing to '' @ path_string localizationPath @ ''...'')],
               spinner := True\<rparr>"
  have w: "writeFile localizationPath newJson ?s1 =
      (?s1\<lparr>trace := trace ?s1 @ [FileWrite localizationPath newJson],
           files := (files ?s1)(localizationPath \<mapsto> File newJson)\<rparr>, Inr ())"
    by (rule writeFile_plain) (use assms in simp_all)
  have n: "write_new e localizationPath newJson s =
      (s\<lparr>trace := trace s @
                  [SpinnerStart (''Writing to '' @ path_string localizationPath @ ''...''),
                   FileWrite localizationPath newJson, SpinnerSuccess],
              spinner := True,
              files := (files s)(localizationPath \<mapsto> File newJson)\<rparr>, Inr ())"
    using assms(2,3) w
    by (simp add: write_new_def bind_def createSpinner_def spinner_success_def emit_def)
  show ?thesis
    using assms(4) n
    by (auto simp: write_if_changed_def existsSync_def readFile_plain[OF assms(1)] emit_def
          is_dir_def split: option.splits node.splits)
qed

subsection \<open>What the stages before the writer leave untouched\<close>

lemma quiet_atI:
  "(\<And>s' r. m s = (s', r) \<Longrightarrow>
      files s' = files s \<and> (\<exists>evs. trace s' = trace s @ evs \<and> filter is_write evs = [])) \<Longrightarrow> quiet_at m s"
  by (simp add: quiet_at_def)

lemma quiet_atD:
  "quiet_at m s \<Longrightarrow> m s = (s', r) \<Longrightarrow>
     files s' = files s \<and> (\<exists>evs. trace s' = trace s @ evs \<and> filter is_write evs = [])"
  by (simp add: quiet_at_def)

lemma quietI: "(\<And>s. quiet_at m s) \<Longrightarrow> quiet m"
  by (simp add: quiet_def)

lemma quietD: "quiet m \<Longrightarrow> quiet_at m s"
  by (simp add: quiet_def)

lemma quiet_basic:
  "quiet (ret x)" "quiet (raise err)" "quiet (lift r)" "quiet (get v name)"
  "quiet (to_string v)" "quiet (createSpinner e msg)" "quiet (spinner_success e)"
  "quiet (spinner_error e)" "quiet (run_transform ks)"
  by (rule quietI, rule quiet_atI,
      auto simp: ret_def raise_def lift_def get_def to_string_def createSpinner_def
        spinner_success_def spinner_error_def emit_def run_transform_def
      split: option.splits prod.splits)+

lemma quiet_emit: "\<not> is_write ev \<Longrightarrow> quiet (emit ev)"
  by (rule quietI, rule quiet_atI) (auto simp: emit_def)

lemma quiet_at_readFile: "map_of (prototype s) ''flag'' = None \<Longrightarrow> quiet_at (readFile p) s"
  by (rule quiet_atI) (auto simp: readFile_plain)

lemma quiet_at_bind:
  assumes "quiet_at m s" "\<And>x. quiet (f x)"
  shows "quiet_at (bind m f) s"
proof (rule quiet_atI)
  fix s' r
  assume run: "bind m f s = (s', r)"
  obtain s1 r1 where m: "m s = (s1, r1)" by (cases "m s")
  from quiet_atD[OF assms(1) m] obtain evs1 where
    1: "files s1 = files s" "trace s1 = trace s @ evs1" "filter is_write evs1 = []" by auto
  show "files s' = files s \<and> (\<exists>evs. trace s' = trace s @ evs \<and> filter is_write evs = [])"
  proof (cases r1)
    case (Inl err)
    with run m have "s' = s1" by (simp add: bind_def)
    with 1 show ?thesis by auto
  next
    case (Inr x)
    with run m have "f x s1 = (s', r)" by (simp add: bind_def)
    from quiet_atD[OF quietD[OF assms(2)] this] obtain evs2 where
      "files s' = files s1" "trace s' = trace s1 @ evs2" "filter is_write evs2 = []" by auto
    with 1 show ?thesis by auto
  qed
qed

lemma quiet_bind:
  assumes "quiet m" "\<And>x. quiet (f x)"
  shows "quiet (bind m f)"
  by (rule quietI) (rule quiet_at_bind[OF quietD[OF assms(1)] assms(2)])

lemma quiet_check_envelope: "quiet (check_envelope response)"
  unfolding check_envelope_def
  by (intro quiet_bind quiet_basic) (simp add: quiet_basic quiet_bind)

lemma quiet_build_json: "quiet (build_json e response)"
  unfolding build_json_def
  by (intro quiet_bind quiet_basic)

lemma quiet_localization_path: "quiet (localization_path e configPath config)"
  unfolding localization_path_def
  by (intro quiet_bind quiet_basic) (simp add: quiet_basic split: jsval.splits)

lemma quiet_at_before_write:
  assumes "map_of (prototype s) ''flag'' = None"
  shows "quiet_at (before_write e configPath) s"
  unfolding before_write_def fetch_response_def
  by (intro quiet_at_bind quiet_at_readFile assms)
     (auto intro!: quiet_bind quiet_basic quiet_emit quiet_check_envelope quiet_build_json
        quiet_localization_path)


subsection \<open>A response that is not ok\<close>

lemma fetch_response_spinner:
  assumes "fetch_response e configPath s = (s1, Inr x)"
  shows "spinner s1"
proof -
  obtain s0 r0 where r: "readFile configPath s = (s0, r0)" by (cases "readFile configPath s")
  show ?thesis
    using assms r
    by (auto simp: fetch_response_def bind_def ret_def lift_def emit_def get_def to_string_def
          createSpinner_def
        split: sum.splits prod.splits option.splits)
qed

lemma check_envelope_rejects:
  assumes "get_prop (prototype s1) response ''ok'' = Inr ok" "\<not> truthy ok"
    and "get_prop (prototype s1) response ''message'' = Inr message"
  shows "check_envelope response s1 = (s1, Inl (Value message))"
  using assms by (simp add: check_envelope_def bind_def get_def raise_def)

lemma try_block_rejected:
  assumes "fetch_response e configPath s = (s1, Inr (config, response))"
    and "check_envelope response s1 = (s1, Inl err)"
  shows "try_block e configPath s = (s1, Inl err)"
  using assms by (simp add: try_block_def before_write_def bind_def)

text \<open>
  What an update run does with a response whose \<open>ok\<close> is false or otherwise falsy, when
  the spinner does not throw. A message with a usable \<open>toString\<close>, such as a string, is
  printed on standard error after the prefix \<open>error: \<close> and the exit code becomes 1. A
  message without one (\<open>undefined\<close>, \<open>null\<close>) makes the handler throw: nothing is
  printed and the exit code is not set.
\<close>

lemma remote_rejection_outcome:
  assumes "command opts = Some ''update''"
    and "findConfig (files s) (cwd e) = Some (Some configPath)"
    and "fetch_response e configPath (s\<lparr>spinner := False\<rparr>) = (s1, Inr (config, response))"
    and "get_prop (prototype s1) response ''ok'' = Inr ok" and "\<not> truthy ok"
    and "get_prop (prototype s1) response ''message'' = Inr message"
    and "spinner_stop e (prototype s1) = None"
  shows "cli e opts s =
     Some (case toString (prototype s1) (Value message) of
             Inr msg \<Rightarrow>
               (s1\<lparr>trace := trace s1 @ [SpinnerError, ConsoleError (chalk_red e ''error: '' @ indent msg)],
                   exitCode := Some 1\<rparr>, Returned)
           | Inl err \<Rightarrow> (s1\<lparr>trace := trace s1 @ [SpinnerError]\<rparr>, Rejected err))"
proof -
  have sp: "spinner s1" using assms(3) by (rule fetch_response_spinner)
  have "try_block e configPath (s\<lparr>spinner := False\<rparr>) = (s1, Inl (Value message))"
    using assms(3) check_envelope_rejects[OF assms(4) assms(5) assms(6)]
    by (rule try_block_rejected)
  then have "update e (Some configPath) s =
     (case toString (prototype s1) (Value message) of
             Inr msg \<Rightarrow>
               (s1\<lparr>trace := trace s1 @ [SpinnerError, ConsoleError (chalk_red e ''error: '' @ indent msg)],
                   exitCode := Some 1\<rparr>, Returned)
           | Inl err \<Rightarrow> (s1\<lparr>trace := trace s1 @ [SpinnerError]\<rparr>, Rejected err))"
    using sp assms(7)
    by (simp add: update_def catch_block_def spinner_error_def logError_def emit_def
        split: sum.splits)
  then show ?thesis
    using assms(1) assms(2) by (simp add: cli_def missing_def)
qed

text \<open>The envelope \<open>{ok: false, message: "bad secret"}\<close> of the specification.\<close>

lemma remote_rejection_example:
  "cli (sample_env (Inr (Obj [(''ok'', Bool False), (''message'', Str ''bad secret'')])))
       update_options (sample_state sample_files) =
     Some (\<lparr>exitCode = Some 1,
             trace = [SpinnerStart ''Fetching updates...'', HttpGet ''p1'' ''s1'', SpinnerError,
                      ConsoleError ''error: bad secret''],
             files = sample_files, prototype = [], spinner = True\<rparr>, Returned)"
  using remote_rejection_outcome[of update_options "sample_state sample_files"
      "sample_env (Inr (Obj [(''ok'', Bool False), (''message'', Str ''bad secret'')]))"
      "[''home'', ''apploc.config.json'']"
      "\<lparr>exitCode = None, trace = [SpinnerStart ''Fetching updates...'', HttpGet ''p1'' ''s1''],
        files = sample_files, prototype = [], spinner = True\<rparr>"
      sample_config "Obj [(''ok'', Bool False), (''message'', Str ''bad secret'')]"
      "Bool False" "Str ''bad secret''"]
    fetch_response_sample[of "Obj [(''ok'', Bool False), (''message'', Str ''bad secret'')]"]
    findConfig_sample
  by (simp add: update_options_def newline_def)
     (simp add: sample_state_def sample_env_def sample_spinner_def)


subsection \<open>A flag written to the prototype\<close>

text \<open>
  The stages before the writer, for the payload that writes \<open>f\<close> to
  \<open>Object.prototype.flag\<close>: the new content is \<open>{}\<close>, and the writer starts with the
  flag in place.
\<close>

lemma before_write_flag:
  "before_write (flag_env f) [''home'', ''apploc.config.json'']
     \<lparr>exitCode = None, trace = [], files = sample_files(localization_file \<mapsto> File old),
       prototype = [], spinner = False\<rparr> =
   (\<lparr>exitCode = None,
      trace = [SpinnerStart ''Fetching updates...'', HttpGet ''p1'' ''s1'', SpinnerSuccess,
               SpinnerStart ''Creating optimized localizations...'', SpinnerSuccess],
      files = sample_files(localization_file \<mapsto> File old),
      prototype = [(''flag'', f)], spinner = True\<rparr>,
    Inr (localization_file, ''{}''))"
  by (simp add: before_write_def fetch_response_def check_envelope_def build_json_def
        localization_path_def run_transform_def bind_def ret_def lift_def emit_def get_def
        to_string_def createSpinner_def spinner_success_def readFile_def stringToFlags_def
        mode_def open_file_def is_dir_def flag_env_def sample_env_def sample_spinner_def
        sample_config_def ok_response_def flag_payload_def localization_file_def
        sample_files_def dirname_def transform_def insert_localization_def lookup_def
        object_of_def inherited_def)

text \<open>
  C2 at the payload \<open>{keys: [{key: "flag", localizations: [{code: "__proto__", value:
  "w+"}]}]}\<close>, with the localization file already holding the new content \<open>{}\<close>. The
  transform writes \<open>Object.prototype.flag = "w+"\<close>. The options of \<open>readFile\<close> inherit
  that flag, so the read of line 208 opens the file for reading and writing, empties it
  and returns the empty text (second statement); the comparison finds a difference, and
  line 211 writes the content the file had before the run.
\<close>

theorem unchanged_file_rewritten:
  "cli (flag_env ''w+'') update_options
       (sample_state (sample_files(localization_file \<mapsto> File ''{}''))) =
     Some (\<lparr>exitCode = None,
             trace = [SpinnerStart ''Fetching updates...'', HttpGet ''p1'' ''s1'', SpinnerSuccess,
                      SpinnerStart ''Creating optimized localizations...'', SpinnerSuccess,
                      SpinnerStart ''Writing to /home/localization.json...'',
                      FileWrite localization_file ''{}'', SpinnerSuccess],
             files = sample_files(localization_file \<mapsto> File ''{}''),
             prototype = [(''flag'', ''w+'')], spinner = True\<rparr>, Returned)
   \<and> readFile localization_file
       \<lparr>exitCode = None, trace = [], files = sample_files(localization_file \<mapsto> File ''{}''),
         prototype = [(''flag'', ''w+'')], spinner = True\<rparr> =
     (\<lparr>exitCode = None, trace = [], files = sample_files(localization_file \<mapsto> File []),
        prototype = [(''flag'', ''w+'')], spinner = True\<rparr>, Inr [])"
proof -
  have cfg: "findConfig (sample_files(localization_file \<mapsto> File ''{}'')) [''home'', ''app'']
      = Some (Some [''home'', ''apploc.config.json''])"
    by (simp add: findConfig.simps sample_files_def path_join_def configFileName_def
          existsSync_def dirname_def localization_file_def)
  have w: "write_if_changed (flag_env ''w+'') localization_file ''{}''
      \<lparr>exitCode = None,
        trace = [SpinnerStart ''Fetching updates...'', HttpGet ''p1'' ''s1'', SpinnerSuccess,
               SpinnerStart ''Creating optimized localizations...'', SpinnerSuccess],
        files = sample_files(localization_file \<mapsto> File ''{}''),
        prototype = [(''flag'', ''w+'')], spinner = True\<rparr> =
      (\<lparr>exitCode = None,
             trace = [SpinnerStart ''Fetching updates...'', HttpGet ''p1'' ''s1'', SpinnerSuccess,
                      SpinnerStart ''Creating optimized localizations...'', SpinnerSuccess,
                      SpinnerStart ''Writing to /home/localization.json...'',
                      FileWrite localization_file ''{}'', SpinnerSuccess],
             files = sample_files(localization_file \<mapsto> File ''{}''),
             prototype = [(''flag'', ''w+'')], spinner = True\<rparr>, Inr ())"
    by (simp add: write_if_changed_def write_new_def existsSync_def readFile_def writeFile_def
          stringToFlags_def mode_def open_file_def is_dir_def bind_def emit_def createSpinner_def
          spinner_success_def flag_env_def sample_env_def sample_spinner_def path_string_def
          localization_file_def sample_files_def dirname_def Let_def)
  have "cli (flag_env ''w+'') update_options
       (sample_state (sample_files(localization_file \<mapsto> File ''{}''))) =
     Some (\<lparr>exitCode = None,
             trace = [SpinnerStart ''Fetching updates...'', HttpGet ''p1'' ''s1'', SpinnerSuccess,
                      SpinnerStart ''Creating optimized localizations...'', SpinnerSuccess,
                      SpinnerStart ''Writing to /home/localization.json...'',
                      FileWrite localization_file ''{}'', SpinnerSuccess],
             files = sample_files(localization_file \<mapsto> File ''{}''),
             prototype = [(''flag'', ''w+'')], spinner = True\<rparr>, Returned)"
    using cfg w before_write_flag[of "''w+''" "''{}''"]
    by (simp add: cli_def update_options_def missing_def update_def try_block_def bind_def
          sample_state_def Let_def flag_env_def sample_env_def)
  moreover have "readFile localization_file
       \<lparr>exitCode = None, trace = [], files = sample_files(localization_file \<mapsto> File ''{}''),
         prototype = [(''flag'', ''w+'')], spinner = True\<rparr> =
     (\<lparr>exitCode = None, trace = [], files = sample_files(localization_file \<mapsto> File []),
        prototype = [(''flag'', ''w+'')], spinner = True\<rparr>, Inr [])"
    by (simp add: readFile_def stringToFlags_def mode_def open_file_def is_dir_def
          localization_file_def)
  ultimately show ?thesis by simp
qed


subsection \<open>A failure before the write\<close>

text \<open>
  C10 at the payload \<open>{keys: [{key: "flag", localizations: [{code: "__proto__", value:
  "w"}]}]}\<close>, with a localization file holding \<open>old\<close>. The transform writes
  \<open>Object.prototype.flag = "w"\<close>. The read of line 208 then opens the file for writing
  only, which empties it, and cannot read it: the \<open>try\<close> block throws before line 211,
  the error is printed, the exit code is 1, no write was called, and the file is empty.
\<close>

theorem failed_update_empties_file:
  "cli (flag_env ''w'') update_options
       (sample_state (sample_files(localization_file \<mapsto> File ''old''))) =
     Some (\<lparr>exitCode = Some 1,
             trace = [SpinnerStart ''Fetching updates...'', HttpGet ''p1'' ''s1'', SpinnerSuccess,
                      SpinnerStart ''Creating optimized localizations...'', SpinnerSuccess,
                      SpinnerError,
                      ConsoleError ''error: Error: EBADF: bad file descriptor, read''],
             files = sample_files(localization_file \<mapsto> File []),
             prototype = [(''flag'', ''w'')], spinner = True\<rparr>, Returned)"
proof -
  have cfg: "findConfig (sample_files(localization_file \<mapsto> File ''old'')) [''home'', ''app'']
      = Some (Some [''home'', ''apploc.config.json''])"
    by (simp add: findConfig.simps sample_files_def path_join_def configFileName_def
          existsSync_def dirname_def localization_file_def)
  have w: "write_if_changed (flag_env ''w'') localization_file ''{}''
      \<lparr>exitCode = None,
        trace = [SpinnerStart ''Fetching updates...'', HttpGet ''p1'' ''s1'', SpinnerSuccess,
               SpinnerStart ''Creating optimized localizations...'', SpinnerSuccess],
        files = sample_files(localization_file \<mapsto> File ''old''),
        prototype = [(''flag'', ''w'')], spinner = True\<rparr> =
      (\<lparr>exitCode = None,
             trace = [SpinnerStart ''Fetching updates...'', HttpGet ''p1'' ''s1'', SpinnerSuccess,
                      SpinnerStart ''Creating optimized localizations...'', SpinnerSuccess],
             files = sample_files(localization_file \<mapsto> File []),
             prototype = [(''flag'', ''w'')], spinner = True\<rparr>,
       Inl (system_error ''EBADF: bad file descriptor, read''))"
    by (simp add: write_if_changed_def existsSync_def readFile_def
          stringToFlags_def mode_def open_file_def is_dir_def
          localization_file_def)
  show ?thesis
    using cfg w before_write_flag[of "''w''" "''old''"]
    by (simp add: cli_def update_options_def missing_def update_def try_block_def bind_def
          sample_state_def Let_def catch_block_def spinner_error_def logError_def emit_def
          system_error_def flag_env_def sample_env_def sample_spinner_def newline_def)
qed

lemma catch_block_quiet:
  assumes "catch_block e err s1 = (s', c)"
  shows "files s' = files s1 \<and> (\<exists>evs. trace s' = trace s1 @ evs \<and> filter is_write evs = [])"
  using assms
  by (auto simp: catch_block_def spinner_error_def logError_def emit_def
      split: sum.splits if_splits option.splits)

text \<open>
  An update run that starts with no \<open>flag\<close> on \<open>Object.prototype\<close> and throws before the
  writer leaves the files as they are and calls no write.
\<close>

lemma update_failure_plain:
  assumes "command opts = Some ''update''"
    and "findConfig (files s) (cwd e) = Some (Some configPath)"
    and "map_of (prototype s) ''flag'' = None"
    and "before_write e configPath (s\<lparr>spinner := False\<rparr>) = (s1, Inl err)"
  shows "\<exists>s' c. cli e opts s = Some (s', c) \<and> files s' = files s \<and>
           filter is_write (new_events s s') = []"
proof -
  have "quiet_at (before_write e configPath) (s\<lparr>spinner := False\<rparr>)"
    by (rule quiet_at_before_write) (simp add: assms(3))
  from quiet_atD[OF this assms(4)] obtain evs1 where
    1: "files s1 = files s" "trace s1 = trace s @ evs1" "filter is_write evs1 = []" by auto
  have t: "try_block e configPath (s\<lparr>spinner := False\<rparr>) = (s1, Inl err)"
    using assms(4) by (simp add: try_block_def bind_def)
  obtain s' c where cb: "catch_block e err s1 = (s', c)" by (cases "catch_block e err s1")
  from catch_block_quiet[OF cb] obtain evs2 where
    2: "files s' = files s1" "trace s' = trace s1 @ evs2" "filter is_write evs2 = []" by auto
  have "cli e opts s = Some (s', c)"
    using assms(1,2) t cb by (simp add: cli_def missing_def update_def)
  moreover have "new_events s s' = evs1 @ evs2"
    using 1 2 by (simp add: new_events_def)
  ultimately show ?thesis using 1 2 by simp
qed

text \<open>
  The same holds for a throw of the writer before its write, when \<open>Object.prototype\<close>
  carries no \<open>flag\<close> there either: a \<open>try\<close> block that throws without having called
  \<open>writeFile\<close> leaves the files as they are.
\<close>

lemma writer_failure_plain:
  assumes "map_of (prototype s) ''flag'' = None"
    and "write_if_changed e localizationPath newJson s = (s', r)"
    and "filter is_write (new_events s s') = []"
  shows "files s' = files s"
proof -
  have n: "write_new e localizationPath newJson s = (s', r) \<Longrightarrow> files s' = files s"
    using assms(3)
    by (auto simp: write_new_def bind_def createSpinner_def writeFile_def Let_def new_events_def
          spinner_success_def emit_def
        split: option.splits sum.splits if_splits node.splits)
  show ?thesis
    using assms(2) n
    by (auto simp: write_if_changed_def readFile_plain[OF assms(1)] emit_def
        split: if_splits option.splits node.splits)
qed

lemma try_block_failure_plain:
  assumes "map_of (prototype s) ''flag'' = None"
    and "try_block e configPath s = (s', Inl err)"
    and "filter is_write (new_events s s') = []"
    and "\<And>s1 x. before_write e configPath s = (s1, Inr x) \<Longrightarrow> map_of (prototype s1) ''flag'' = None"
  shows "files s' = files s"
proof -
  obtain s1 r1 where b: "before_write e configPath s = (s1, r1)"
    by (cases "before_write e configPath s")
  from quiet_atD[OF quiet_at_before_write[OF assms(1)] b] obtain evs1 where
    1: "files s1 = files s" "trace s1 = trace s @ evs1" "filter is_write evs1 = []" by auto
  show ?thesis
  proof (cases r1)
    case (Inl a)
    with b assms(2) have "s' = s1" by (simp add: try_block_def bind_def)
    with 1 show ?thesis by simp
  next
    case (Inr x)
    obtain lp nj where x: "x = (lp, nj)" by (cases x)
    with Inr b assms(2) have w: "write_if_changed e lp nj s1 = (s', Inl err)"
      by (simp add: try_block_def bind_def)
    have "new_events s1 s' = drop (length evs1) (new_events s s')"
      using 1 by (simp add: new_events_def add.commute)
    then have "filter is_write (new_events s1 s') = []"
      using assms(3) by (simp add: filter_empty_conv) (metis in_set_dropD)
    from writer_failure_plain[OF assms(4)[OF b[unfolded Inr]] w this] 1 show ?thesis by simp
  qed
qed

subsection \<open>An error the handler does not survive\<close>

text \<open>
  C5 at the response \<open>{ok: false}\<close>, which has no \<open>message\<close>. Line 183 throws
  \<open>undefined\<close>; in the \<open>catch\<close> block \<open>logError\<close> calls \<open>toString\<close> on it, which
  throws a TypeError out of the handler. Nothing is printed on standard error,
  \<open>process.exitCode\<close> is never assigned, and the promise of \<open>cli\<close> is rejected.
\<close>

theorem rejected_without_message:
  "cli (sample_env (Inr (Obj [(''ok'', Bool False)]))) update_options (sample_state sample_files)
   = Some (\<lparr>exitCode = None,
             trace = [SpinnerStart ''Fetching updates...'', HttpGet ''p1'' ''s1'', SpinnerError],
             files = sample_files, prototype = [], spinner = True\<rparr>,
           Rejected (TypeError ''Cannot read properties of undefined (reading toString)''))"
proof -
  have "try_block (sample_env (Inr (Obj [(''ok'', Bool False)]))) [''home'', ''apploc.config.json'']
          (sample_state sample_files\<lparr>spinner := False\<rparr>) =
        (\<lparr>exitCode = None, trace = [SpinnerStart ''Fetching updates...'', HttpGet ''p1'' ''s1''],
          files = sample_files, prototype = [], spinner = True\<rparr>, Inl (Value Undefined))"
    by (simp add: try_block_def before_write_def bind_def fetch_response_sample
          check_envelope_def get_def raise_def inherited_def)
  then show ?thesis
    by (simp add: cli_def update_options_def missing_def findConfig_sample update_def
          catch_block_def spinner_error_def logError_def emit_def sample_env_def
          sample_spinner_def sample_state_def Let_def)
qed

text \<open>
  C4 at the response \<open>{ok: false, message: null}\<close>. Line 183 throws \<open>null\<close>, and the
  handler fails as it does for a response without a message: the command prints no
  message and does not set the exit code.
\<close>

theorem rejected_with_null_message:
  "cli (sample_env (Inr (Obj [(''ok'', Bool False), (''message'', Null)]))) update_options
       (sample_state sample_files)
   = Some (\<lparr>exitCode = None,
             trace = [SpinnerStart ''Fetching updates...'', HttpGet ''p1'' ''s1'', SpinnerError],
             files = sample_files, prototype = [], spinner = True\<rparr>,
           Rejected (TypeError ''Cannot read properties of null (reading toString)''))"
proof -
  have "try_block (sample_env (Inr (Obj [(''ok'', Bool False), (''message'', Null)])))
          [''home'', ''apploc.config.json''] (sample_state sample_files\<lparr>spinner := False\<rparr>) =
        (\<lparr>exitCode = None, trace = [SpinnerStart ''Fetching updates...'', HttpGet ''p1'' ''s1''],
          files = sample_files, prototype = [], spinner = True\<rparr>, Inl (Value Null))"
    by (simp add: try_block_def before_write_def bind_def fetch_response_sample
          check_envelope_def get_def raise_def inherited_def)
  then show ?thesis
    by (simp add: cli_def update_options_def missing_def findConfig_sample update_def
          catch_block_def spinner_error_def logError_def emit_def sample_env_def
          sample_spinner_def sample_state_def Let_def)
qed


subsection \<open>Exit codes\<close>

text \<open>Every run of \<open>cli\<close> ends: the walk of \<open>findConfig\<close> is its only loop.\<close>

lemma cli_returns: "\<exists>r. cli e opts s = Some r"
  by (auto simp: cli_def Let_def findConfig_walk split: option.splits prod.splits sum.splits)

lemma keeps_exitI: "(\<And>s s' r. m s = (s', r) \<Longrightarrow> exitCode s' = exitCode s) \<Longrightarrow> keeps_exit m"
  by (simp add: keeps_exit_def)

lemma keeps_exitD: "keeps_exit m \<Longrightarrow> m s = (s', r) \<Longrightarrow> exitCode s' = exitCode s"
  by (simp add: keeps_exit_def)

lemma keeps_exit_bind:
  assumes "keeps_exit m" "\<And>x. keeps_exit (f x)"
  shows "keeps_exit (bind m f)"
proof (rule keeps_exitI)
  fix s s' r
  assume run: "bind m f s = (s', r)"
  obtain s1 r1 where m: "m s = (s1, r1)" by (cases "m s")
  have 1: "exitCode s1 = exitCode s" using assms(1) m by (rule keeps_exitD)
  show "exitCode s' = exitCode s"
  proof (cases r1)
    case (Inl err)
    with run m 1 show ?thesis by (simp add: bind_def)
  next
    case (Inr x)
    with run m have "f x s1 = (s', r)" by (simp add: bind_def)
    with assms(2) have "exitCode s' = exitCode s1" by (rule keeps_exitD)
    with 1 show ?thesis by simp
  qed
qed

lemma keeps_exit_basic:
  "keeps_exit (ret x)" "keeps_exit (raise err)" "keeps_exit (lift r)" "keeps_exit (get v name)"
  "keeps_exit (to_string v)" "keeps_exit (emit ev)" "keeps_exit (createSpinner e msg)"
  "keeps_exit (spinner_success e)" "keeps_exit (spinner_error e)"
  "keeps_exit (readFile p)" "keeps_exit (run_transform ks)" "keeps_exit (writeFile p contents)"
  by (rule keeps_exitI;
      auto simp: ret_def raise_def lift_def get_def to_string_def emit_def createSpinner_def
        spinner_success_def spinner_error_def readFile_def run_transform_def writeFile_def Let_def
      split: if_splits option.splits node.splits prod.splits sum.splits)+

lemma keeps_exit_before_write: "keeps_exit (before_write e configPath)"
  unfolding before_write_def fetch_response_def check_envelope_def build_json_def
    localization_path_def
  by (auto intro!: keeps_exit_bind keeps_exit_basic split: jsval.splits)

lemma keeps_exit_write_if_changed: "keeps_exit (write_if_changed e p newJson)"
proof (rule keeps_exitI)
  fix s s' r
  assume run: "write_if_changed e p newJson s = (s', r)"
  have w: "keeps_exit (write_new e p newJson)"
    unfolding write_new_def by (intro keeps_exit_bind keeps_exit_basic)
  obtain s0 r0 where rd: "readFile p s = (s0, r0)" by (cases "readFile p s")
  have 0: "exitCode s0 = exitCode s" using keeps_exit_basic(10) rd by (rule keeps_exitD)
  from run rd 0 show "exitCode s' = exitCode s"
    by (auto simp: write_if_changed_def emit_def
        split: if_splits sum.splits dest: keeps_exitD[OF w])
qed

lemma keeps_exit_try_block: "keeps_exit (try_block e configPath)"
  unfolding try_block_def
  by (auto intro!: keeps_exit_bind keeps_exit_before_write keeps_exit_write_if_changed)

lemma keeps_exit_init: "keeps_exit (init e opts found)"
  unfolding init_def save_config_def promptForMissingOptions_def option_or_ask_def ask_def Let_def
  by (auto intro!: keeps_exit_bind keeps_exit_basic split: option.splits)

text \<open>
  What the \<open>catch\<close> block does with a thrown value that has a usable \<open>toString\<close>, as
  every Error object has, when the spinner does not throw; and with one that has none.
\<close>

lemma update_error_caught:
  assumes "command opts = Some ''update''"
    and "findConfig (files s) (cwd e) = Some (Some configPath)"
    and "try_block e configPath (s\<lparr>spinner := False\<rparr>) = (s1, Inl err)"
    and "spinner_stop e (prototype s1) = None"
    and "toString (prototype s1) err = Inr msg"
  shows "cli e opts s =
     Some (s1\<lparr>trace := trace s1 @ (if spinner s1 then [SpinnerError] else []) @
                    [ConsoleError (chalk_red e ''error: '' @ indent msg)],
              exitCode := Some 1\<rparr>, Returned)"
  using assms
  by (simp add: cli_def missing_def update_def catch_block_def spinner_error_def logError_def
        emit_def)

lemma update_error_escapes:
  assumes "command opts = Some ''update''"
    and "findConfig (files s) (cwd e) = Some (Some configPath)"
    and "try_block e configPath (s\<lparr>spinner := False\<rparr>) = (s1, Inl err)"
    and "spinner_stop e (prototype s1) = None"
    and "toString (prototype s1) err = Inl err'"
  shows "cli e opts s =
     Some (s1\<lparr>trace := trace s1 @ (if spinner s1 then [SpinnerError] else [])\<rparr>, Rejected err')"
  using assms
  by (simp add: cli_def missing_def update_def catch_block_def spinner_error_def logError_def
        emit_def)

text \<open>
  The exit code of a run that starts with \<open>process.exitCode\<close> unassigned and returns.
\<close>

lemma cli_exit_code:
  assumes "exitCode s = None" and "cli e opts s = Some (s', Returned)"
  shows "exitCode s' = Some 1 \<longleftrightarrow>
           missing (command opts) \<or>
           (command opts \<noteq> Some ''help'' \<and> command opts \<noteq> Some ''init'' \<and>
            command opts \<noteq> Some ''update'') \<or>
           (command opts = Some ''update'' \<and>
             (case findConfig (files s) (cwd e) of
                Some (Some configPath) \<Rightarrow>
                  (\<exists>s1 err. try_block e configPath (s\<lparr>spinner := False\<rparr>) = (s1, Inl err))
              | _ \<Rightarrow> True))"
    and "exitCode s' = None \<or> exitCode s' = Some 1"
proof -
  obtain found where f: "findConfig (files s) (cwd e) = Some found"
    using findConfig_walk by blast
  consider (no_command) "missing (command opts)"
    | (usage_asked) "\<not> missing (command opts)" "command opts = Some ''help''"
    | (init_asked) "\<not> missing (command opts)" "command opts = Some ''init''"
    | (update_asked) "\<not> missing (command opts)" "command opts = Some ''update''"
    | (unknown) "\<not> missing (command opts)" "command opts \<noteq> Some ''help''"
        "command opts \<noteq> Some ''init''" "command opts \<noteq> Some ''update''"
    by blast
  then have "(exitCode s' = Some 1 \<longleftrightarrow>
           missing (command opts) \<or>
           (command opts \<noteq> Some ''help'' \<and> command opts \<noteq> Some ''init'' \<and>
            command opts \<noteq> Some ''update'') \<or>
           (command opts = Some ''update'' \<and>
             (case findConfig (files s) (cwd e) of
                Some (Some configPath) \<Rightarrow>
                  (\<exists>s1 err. try_block e configPath (s\<lparr>spinner := False\<rparr>) = (s1, Inl err))
              | _ \<Rightarrow> True))) \<and> (exitCode s' = None \<or> exitCode s' = Some 1)"
  proof cases
    case no_command
    with assms(2) show ?thesis
      by (auto simp: cli_def Let_def finish_def printUsage_def emit_def)
  next
    case usage_asked
    with assms show ?thesis
      by (auto simp: cli_def Let_def finish_def printUsage_def emit_def)
  next
    case init_asked
    obtain s2 r2 where i: "init e opts found s = (s2, r2)" by (cases "init e opts found s")
    have "exitCode s2 = exitCode s" using keeps_exit_init i by (rule keeps_exitD)
    with init_asked assms f i show ?thesis
      by (auto simp: cli_def Let_def finish_def split: sum.splits)
  next
    case update_asked
    show ?thesis
    proof (cases found)
      case None
      with update_asked assms f show ?thesis
        by (auto simp: cli_def Let_def update_def logError_def emit_def split: sum.splits)
    next
      case (Some configPath)
      obtain s1 r1 where t: "try_block e configPath (s\<lparr>spinner := False\<rparr>) = (s1, r1)"
        by (cases "try_block e configPath (s\<lparr>spinner := False\<rparr>)")
      have k: "exitCode s1 = None"
        using keeps_exitD[OF keeps_exit_try_block t] assms(1) by simp
      show ?thesis
      proof (cases r1)
        case (Inl err)
        with update_asked assms f Some t k show ?thesis
          by (auto simp: cli_def Let_def update_def catch_block_def spinner_error_def
                logError_def emit_def
              split: sum.splits if_splits option.splits)
      next
        case (Inr u)
        with update_asked assms f Some t k show ?thesis
          by (auto simp: cli_def Let_def update_def)
      qed
    qed
  next
    case unknown
    with assms f show ?thesis
      by (auto simp: cli_def Let_def logError_def emit_def split: sum.splits)
  qed
  then show "exitCode s' = Some 1 \<longleftrightarrow>
           missing (command opts) \<or>
           (command opts \<noteq> Some ''help'' \<and> command opts \<noteq> Some ''init'' \<and>
            command opts \<noteq> Some ''update'') \<or>
           (command opts = Some ''update'' \<and>
             (case findConfig (files s) (cwd e) of
                Some (Some configPath) \<Rightarrow>
                  (\<exists>s1 err. try_block e configPath (s\<lparr>spinner := False\<rparr>) = (s1, Inl err))
              | _ \<Rightarrow> True))"
    and "exitCode s' = None \<or> exitCode s' = Some 1" by auto
qed

text \<open>The stages whose failure ends the \<open>try\<close> block before the writer.\<close>

lemma before_write_fails:
  "fetch_response e configPath s = (s1, Inl err) \<Longrightarrow> before_write e configPath s = (s1, Inl err)"
  "fetch_response e configPath s = (s1, Inr (config, response)) \<Longrightarrow>
     check_envelope response s1 = (s2, Inl err) \<Longrightarrow> before_write e configPath s = (s2, Inl err)"
  "fetch_response e configPath s = (s1, Inr (config, response)) \<Longrightarrow>
     check_envelope response s1 = (s2, Inr u) \<Longrightarrow> build_json e response s2 = (s3, Inl err) \<Longrightarrow>
     before_write e configPath s = (s3, Inl err)"
  by (simp_all add: before_write_def bind_def)

end
